theory Spec2Isabelle
  imports Complex_Main
begin

section \<open>Application state of the poster generator (src/App.tsx)\<close>

text \<open>
  The component \<^verbatim>\<open>App\<close> keeps twelve \<^verbatim>\<open>useState\<close> cells (lines 10 to 21).
  They are collected in one record; a value of type \<^verbatim>\<open>T | null\<close> is an \<open>option\<close>.
  An uploaded \<^verbatim>\<open>File\<close> is known to the component only through its name (line 48)
  and its contents (line 47).
\<close>

record js_file =
  file_name :: string
  file_data :: string

record app_state =
  imageFile :: "js_file option"
  previewUrl :: "string option"
  name :: string
  symbol :: string
  district :: string
  selectedFont :: string
  generatedPosters :: "string list option"
  selectedPoster :: "string option"
  symbolImageUrl :: "string option"
  isLoading :: bool
  isDownloading :: bool
  error :: "string option"

text \<open>The initial values of the \<^verbatim>\<open>useState\<close> calls.\<close>

definition initial_state :: app_state where
  "initial_state =
     \<lparr> imageFile = None, previewUrl = None, name = [], symbol = [], district = [],
       selectedFont = ''Cairo'', generatedPosters = None, selectedPoster = None,
       symbolImageUrl = None, isLoading = False, isDownloading = False, error = None \<rparr>"

text \<open>
  JavaScript truthiness of the values the handlers test with \<^verbatim>\<open>!x\<close> or \<^verbatim>\<open>if (x)\<close>:
  a string is truthy unless it is empty, \<^verbatim>\<open>null\<close> is falsy, an object (a file, an
  array) is truthy.
\<close>

definition truthy_str :: "string \<Rightarrow> bool" where
  "truthy_str t = (t \<noteq> [])"

definition truthy_opt_str :: "string option \<Rightarrow> bool" where
  "truthy_opt_str v = (case v of None \<Rightarrow> False | Some t \<Rightarrow> truthy_str t)"

subsection \<open>handleImageChange (lines 23 to 32)\<close>

text \<open>
  \<^verbatim>\<open>URL.createObjectURL\<close> is the browser's; it is a parameter of the model.
\<close>

definition handleImageChange ::
  "(js_file \<Rightarrow> string) \<Rightarrow> js_file option \<Rightarrow> app_state \<Rightarrow> app_state" where
  "handleImageChange createObjectURL file s =
     (case file of
        None \<Rightarrow> s
      | Some f \<Rightarrow>
          s\<lparr> imageFile := Some f,
             previewUrl := Some (createObjectURL f),
             generatedPosters := None,
             selectedPoster := None,
             symbolImageUrl := None,
             error := None \<rparr>)"

subsection \<open>handleReset (lines 160 to 171)\<close>

definition handleReset :: "app_state \<Rightarrow> app_state" where
  "handleReset s =
     s\<lparr> imageFile := None,
        previewUrl := None,
        name := [],
        symbol := [],
        district := [],
        generatedPosters := None,
        selectedPoster := None,
        symbolImageUrl := None,
        error := None,
        isLoading := False \<rparr>"

subsection \<open>handleGenerateClick (lines 34 to 74)\<close>

text \<open>
  A promise settles either with a value or with a thrown value. The \<^verbatim>\<open>catch\<close> block
  (line 70) reads the message of a thrown \<^verbatim>\<open>Error\<close> and replaces anything else by a
  fixed text.
\<close>

datatype thrown = ErrorObj string | NonError

datatype 'a settled = Fulfilled 'a | Rejected thrown

definition catch_message :: "thrown \<Rightarrow> string" where
  "catch_message e =
     (case e of ErrorObj m \<Rightarrow> m | NonError \<Rightarrow> ''An unexpected error occurred.'')"

text \<open>
  The collaborators imported from \<^verbatim>\<open>./services/geminiService\<close> and
  \<^verbatim>\<open>./utils/fileUtils\<close> are outside the component; they are the fields of an
  environment. A poster call may deliver \<^verbatim>\<open>null\<close> (the code tests
  \<^verbatim>\<open>posterResults && ...\<close>) or an array, the icon call \<^verbatim>\<open>null\<close> or a string.
  When both calls of \<^verbatim>\<open>Promise.all\<close> reject, the rejection that comes first in time
  is the one reported: \<open>poster_settles_first\<close> says which.
\<close>

record gen_env =
  fileToBase64 :: "js_file \<Rightarrow> string settled"
  getMimeType :: "string \<Rightarrow> string option"
  generatePoster :: "string \<times> string \<Rightarrow> string list option settled"
  generateSymbolImage :: "string \<Rightarrow> string option settled"
  poster_settles_first :: bool

definition promise_all ::
  "bool \<Rightarrow> 'a settled \<Rightarrow> 'b settled \<Rightarrow> ('a \<times> 'b) settled" where
  "promise_all first_wins p q =
     (case p of
        Fulfilled a \<Rightarrow>
          (case q of Fulfilled b \<Rightarrow> Fulfilled (a, b) | Rejected e \<Rightarrow> Rejected e)
      | Rejected d \<Rightarrow>
          (case q of
             Fulfilled b \<Rightarrow> Rejected d
           | Rejected e \<Rightarrow> Rejected (if first_wins then d else e)))"

text \<open>Lines 47 to 53: the awaited part of the \<^verbatim>\<open>try\<close> block.\<close>

definition generate_remote ::
  "gen_env \<Rightarrow> js_file \<Rightarrow> string \<Rightarrow> (string list option \<times> string option) settled" where
  "generate_remote env f symbolText =
     (case fileToBase64 env f of
        Rejected e \<Rightarrow> Rejected e
      | Fulfilled base64Data \<Rightarrow>
          (let mimeType =
                 (case getMimeType env (file_name f) of
                    None \<Rightarrow> ''image/jpeg''
                  | Some m \<Rightarrow> if truthy_str m then m else ''image/jpeg'')
           in promise_all (poster_settles_first env)
                (generatePoster env (base64Data, mimeType))
                (generateSymbolImage env symbolText)))"

text \<open>Line 35: the validation guard.\<close>

definition form_incomplete :: "app_state \<Rightarrow> bool" where
  "form_incomplete s =
     (imageFile s = None \<or> \<not> truthy_str (name s) \<or> \<not> truthy_str (symbol s)
        \<or> \<not> truthy_str (district s))"

text \<open>Lines 40 to 44: the synchronous part before the first \<^verbatim>\<open>await\<close>.\<close>

definition generate_begin :: "app_state \<Rightarrow> app_state" where
  "generate_begin s =
     s\<lparr> isLoading := True,
        error := None,
        generatedPosters := None,
        selectedPoster := None,
        symbolImageUrl := None \<rparr>"

text \<open>
  Lines 55 to 73: what runs once the awaited calls have settled. The setters are
  absolute, so the continuation acts on whatever the state is by then. A
  \<^verbatim>\<open>throw\<close> inside the \<^verbatim>\<open>try\<close> block leaves the setters already called in effect.
\<close>

definition generate_settle ::
  "(string list option \<times> string option) settled \<Rightarrow> app_state \<Rightarrow> app_state" where
  "generate_settle r s =
     (case r of
        Rejected e \<Rightarrow> s\<lparr> error := Some (catch_message e), isLoading := False \<rparr>
      | Fulfilled (posterResults, symbolImageResult) \<Rightarrow>
          (case posterResults of
             None \<Rightarrow>
               s\<lparr> error := Some
                    ''The AI model did not return any poster images. Please try again.'',
                  isLoading := False \<rparr>
           | Some [] \<Rightarrow>
               s\<lparr> error := Some
                    ''The AI model did not return any poster images. Please try again.'',
                  isLoading := False \<rparr>
           | Some (p # ps) \<Rightarrow>
               (let s1 = s\<lparr> generatedPosters := Some (p # ps), selectedPoster := Some p \<rparr>
                in if truthy_opt_str symbolImageResult
                   then s1\<lparr> symbolImageUrl := symbolImageResult, isLoading := False \<rparr>
                   else s1\<lparr> error := Some
                             ''The AI model failed to generate an icon for the symbol.'',
                           isLoading := False \<rparr>)))"

definition handleGenerateClick :: "gen_env \<Rightarrow> app_state \<Rightarrow> app_state" where
  "handleGenerateClick env s =
     (if form_incomplete s
      then s\<lparr> error := Some ''Please fill all fields: photo, name, symbol, and district.'' \<rparr>
      else (case imageFile s of
              None \<Rightarrow> s
            | Some f \<Rightarrow> generate_settle (generate_remote env f (symbol s)) (generate_begin s)))"

subsection \<open>What the component renders (lines 240 to 304)\<close>

text \<open>
  The output section shows the result view, with the thumbnails and the download
  button, under the condition of line 257; the error box under that of line 251; the
  placeholder under that of line 297. An array is truthy even when empty.
\<close>

definition result_view :: "app_state \<Rightarrow> bool" where
  "result_view s =
     (\<not> isLoading s \<and> \<not> truthy_opt_str (error s) \<and> generatedPosters s \<noteq> None
        \<and> truthy_opt_str (selectedPoster s))"

definition error_view :: "app_state \<Rightarrow> bool" where
  "error_view s = (\<not> isLoading s \<and> truthy_opt_str (error s))"

definition placeholder_view :: "app_state \<Rightarrow> bool" where
  "placeholder_view s =
     (\<not> isLoading s \<and> \<not> truthy_opt_str (error s) \<and> generatedPosters s = None)"

text \<open>
  Lines 277 to 285: one thumbnail button per element of \<^verbatim>\<open>generatedPosters\<close>; the
  button at index \<open>i\<close> calls \<^verbatim>\<open>setSelectedPoster(poster)\<close> with that element. A
  button that is not rendered cannot be clicked.
\<close>

definition select_poster :: "nat \<Rightarrow> app_state \<Rightarrow> app_state" where
  "select_poster i s =
     (if result_view s
      then (case generatedPosters s of
              None \<Rightarrow> s
            | Some ps \<Rightarrow> if i < length ps then s\<lparr> selectedPoster := Some (ps ! i) \<rparr> else s)
      else s)"

fun select_posters :: "nat list \<Rightarrow> app_state \<Rightarrow> app_state" where
  "select_posters [] s = s"
| "select_posters (i # rest) s = select_posters rest (select_poster i s)"

section \<open>JavaScript numbers\<close>

text \<open>
  A JavaScript number is an IEEE 754 binary64 value. The finite ones are rationals, and
  every arithmetic operation is the exact operation followed by rounding to the nearest
  binary64 value, ties to the even significand. \<open>fl\<close> is that rounding: 53 significant
  bits, least exponent \<open>-1022\<close> (below it the spacing stays \<open>2 ^ -1074\<close>). Overflow to
  infinity is not represented: the numbers of this program are quotients and products
  of image dimensions, which the browser keeps below \<open>2 ^ 32\<close>, and of the constants of
  the source, far inside the finite range.
\<close>

type_synonym jsnum = rat

function nbits :: "nat \<Rightarrow> nat" where
  "nbits n = (if n = 0 then 0 else Suc (nbits (n div 2)))"
  by pat_completeness auto
termination
  by (relation "measure id") auto

declare nbits.simps [simp del]

definition pow2 :: "int \<Rightarrow> rat" where
  "pow2 e = (if 0 \<le> e then 2 ^ nat e else 1 / 2 ^ nat (- e))"

text \<open>For \<open>a > 0\<close>, the integer \<open>e\<close> with \<open>2 ^ e \<le> a < 2 ^ (e + 1)\<close>.\<close>

definition ilog2 :: "rat \<Rightarrow> int" where
  "ilog2 a =
     (if 1 \<le> a then int (nbits (nat \<lfloor>a\<rfloor>)) - 1
      else - int (nbits (nat (\<lceil>1 / a\<rceil> - 1))))"

definition round_half_even :: "rat \<Rightarrow> int" where
  "round_half_even q =
     (let n = \<lfloor>q\<rfloor>; r = q - of_int n
      in if r < 1 / 2 then n
         else if 1 / 2 < r then n + 1
         else if even n then n else n + 1)"

text \<open>
  The distance between neighbouring binary64 values around \<open>x \<noteq> 0\<close>: 52 binary
  places below the leading bit, and never finer than \<open>2 ^ -1074\<close>.
\<close>

definition spacing :: "rat \<Rightarrow> rat" where
  "spacing x = pow2 (max (ilog2 \<bar>x\<bar>) (- 1022) - 52)"

definition fl :: "rat \<Rightarrow> jsnum" where
  "fl x =
     (if x = 0 then 0
      else (let u = spacing x
            in sgn x * of_int (round_half_even (\<bar>x\<bar> / u)) * u))"

definition fadd :: "jsnum \<Rightarrow> jsnum \<Rightarrow> jsnum" where
  "fadd a b = fl (a + b)"

definition fsub :: "jsnum \<Rightarrow> jsnum \<Rightarrow> jsnum" where
  "fsub a b = fl (a - b)"

definition fmul :: "jsnum \<Rightarrow> jsnum \<Rightarrow> jsnum" where
  "fmul a b = fl (a * b)"

text \<open>Division by a non-zero number; the one division by a variable is guarded below.\<close>

definition fdiv :: "jsnum \<Rightarrow> jsnum \<Rightarrow> jsnum" where
  "fdiv a b = fl (a / b)"

text \<open>The literal \<^verbatim>\<open>0.82\<close> of line 119 denotes the binary64 value nearest to it.\<close>

definition literal_0_82 :: jsnum where
  "literal_0_82 = fl (82 / 100)"

text \<open>
  The attributes \<^verbatim>\<open>width\<close> and \<^verbatim>\<open>height\<close> of a canvas are \<^verbatim>\<open>unsigned long\<close>:
  a finite number assigned to them is first truncated towards zero and reduced modulo
  \<open>2 ^ 32\<close>.
\<close>

definition to_unsigned_long :: "jsnum \<Rightarrow> nat" where
  "to_unsigned_long x =
     nat ((if x < 0 then - \<lfloor>- x\<rfloor> else \<lfloor>x\<rfloor>) mod 2 ^ 32)"

text \<open>
  Both attributes reflect a content attribute that holds non-negative integers up to
  \<open>2147483647\<close> only: a converted value above that bound is replaced by the default
  of the attribute, 300 for the width and 150 for the height, and this is what a later
  read of \<^verbatim>\<open>canvas.width\<close> or \<^verbatim>\<open>canvas.height\<close> returns.
\<close>

definition canvas_dimension :: "nat \<Rightarrow> jsnum \<Rightarrow> nat" where
  "canvas_dimension dflt x =
     (let v = to_unsigned_long x in if 2147483647 < v then dflt else v)"

section \<open>The download compositing routine (handleDownload, lines 76 to 157)\<close>

text \<open>
  A decoded image is known through the reference it was loaded from and its pixel
  dimensions (\<^verbatim>\<open>posterImage.width\<close>, \<^verbatim>\<open>posterImage.height\<close>).
\<close>

record image =
  img_src :: string
  img_width :: nat
  img_height :: nat

subsection \<open>Geometry (lines 93 to 136)\<close>

record layout =
  canvasWidth :: nat
  canvasHeight :: nat
  textX :: jsnum
  nameFontSize :: jsnum
  nameY :: jsnum
  districtFontSize :: jsnum
  districtY :: jsnum
  symbolSize :: jsnum
  symbolX :: jsnum
  symbolY :: jsnum

text \<open>
  Line 93 divides by the width of the poster. For a width of zero the quotient is
  \<^verbatim>\<open>Infinity\<close>, the product of line 95 is \<^verbatim>\<open>Infinity\<close> or \<^verbatim>\<open>NaN\<close>, and the
  canvas turns either into a height of \<open>0\<close>; \<open>scale\<close> is read nowhere else. Image
  dimensions and canvas sizes are integers below \<open>2 ^ 32\<close>, which binary64 holds
  exactly.
\<close>

definition compute_layout :: "nat \<Rightarrow> nat \<Rightarrow> layout" where
  "compute_layout W H =
     (let scale = fdiv 1500 (of_nat W);
          cw = canvas_dimension 300 1500;
          ch = (if W = 0 then 0 else canvas_dimension 150 (fmul (of_nat H) scale));
          nfs = fdiv (of_nat cw) 14;
          ny = fmul (of_nat ch) literal_0_82;
          dfs = fdiv (of_nat cw) 35;
          dy = fadd ny (fdiv nfs 2);
          ss = fdiv (of_nat cw) 9;
          sx = fsub (fdiv (of_nat cw) 2) (fdiv ss 2);
          sy = fadd dy dfs
      in \<lparr> canvasWidth = cw, canvasHeight = ch, textX = fdiv (of_nat cw) 2,
           nameFontSize = nfs, nameY = ny, districtFontSize = dfs, districtY = dy,
           symbolSize = ss, symbolX = sx, symbolY = sy \<rparr>)"

subsection \<open>Calls on the drawing context (lines 105 to 137)\<close>

text \<open>
  Every assignment to a property of the context and every call of a drawing method is
  one operation; the routine is the list of its operations in program order. The font
  shorthand of lines 115 and 125 is kept as weight, size in pixels and family.
\<close>

datatype font_spec = Font nat jsnum string

datatype ctx_op =
    DrawImage image jsnum jsnum jsnum jsnum
  | Set_shadowColor string
  | Set_shadowBlur jsnum
  | Set_shadowOffsetX jsnum
  | Set_shadowOffsetY jsnum
  | Set_font font_spec
  | Set_fillStyle string
  | Set_textAlign string
  | Set_direction string
  | FillText string jsnum jsnum

text \<open>The Arabic words that open the caption of line 123, as UTF-8 bytes.\<close>

definition district_prefix :: string where
  "district_prefix =
     [CHR 0xD9, CHR 0x85, CHR 0xD8, CHR 0xB1, CHR 0xD8, CHR 0xB4, CHR 0xD8, CHR 0xAD,
      CHR 0x20, CHR 0xD8, CHR 0xB9, CHR 0xD9, CHR 0x86, CHR 0x20, CHR 0xD8, CHR 0xAF,
      CHR 0xD8, CHR 0xA7, CHR 0xD8, CHR 0xA6, CHR 0xD8, CHR 0xB1, CHR 0xD8, CHR 0xA9,
      CHR 0x20]"

definition districtText :: "string \<Rightarrow> string" where
  "districtText d = district_prefix @ d"

definition draw_ops ::
  "image \<Rightarrow> image \<Rightarrow> string \<Rightarrow> string \<Rightarrow> string \<Rightarrow> ctx_op list" where
  "draw_ops posterImage symbolImage nm dst fnt =
     (let g = compute_layout (img_width posterImage) (img_height posterImage)
      in [ DrawImage posterImage 0 0 (of_nat (canvasWidth g)) (of_nat (canvasHeight g)),
           Set_shadowColor ''rgba(0, 0, 0, 0.4)'',
           Set_shadowBlur 10,
           Set_shadowOffsetX 2,
           Set_shadowOffsetY 2,
           Set_font (Font 900 (nameFontSize g) fnt),
           Set_fillStyle ''#FFFFFF'',
           Set_textAlign ''center'',
           Set_direction ''rtl'',
           FillText nm (textX g) (nameY g),
           Set_font (Font 700 (districtFontSize g) fnt),
           Set_fillStyle ''#FFFFFF'',
           FillText (districtText dst) (textX g) (districtY g),
           Set_shadowColor ''transparent'',
           DrawImage symbolImage (symbolX g) (symbolY g) (symbolSize g) (symbolSize g) ])"

subsection \<open>The shadow state of the context\<close>

text \<open>
  A drawing call casts a shadow when the shadow colour is not fully transparent and the
  blur or one of the offsets is not zero. A new context starts with transparent black,
  blur and offsets zero. Of the colour syntax only the values this program assigns and
  the initial one are told apart.
\<close>

record shadow_state =
  shadowColor :: string
  shadowBlur :: jsnum
  shadowOffsetX :: jsnum
  shadowOffsetY :: jsnum

definition initial_shadow :: shadow_state where
  "initial_shadow =
     \<lparr> shadowColor = ''rgba(0, 0, 0, 0)'', shadowBlur = 0, shadowOffsetX = 0,
       shadowOffsetY = 0 \<rparr>"

definition transparent_colour :: "string \<Rightarrow> bool" where
  "transparent_colour c = (c = ''transparent'' \<or> c = ''rgba(0, 0, 0, 0)'')"

definition shadow_active :: "shadow_state \<Rightarrow> bool" where
  "shadow_active st =
     (\<not> transparent_colour (shadowColor st)
        \<and> (shadowBlur st \<noteq> 0 \<or> shadowOffsetX st \<noteq> 0 \<or> shadowOffsetY st \<noteq> 0))"

datatype drawn = DrawnImage image | DrawnText string

text \<open>
  Running the operations: the list of what was drawn, each with the shadow state it was
  drawn under.
\<close>

fun paint :: "shadow_state \<Rightarrow> ctx_op list \<Rightarrow> (drawn \<times> bool) list" where
  "paint st [] = []"
| "paint st (DrawImage img x y w h # ops) = (DrawnImage img, shadow_active st) # paint st ops"
| "paint st (FillText t x y # ops) = (DrawnText t, shadow_active st) # paint st ops"
| "paint st (Set_shadowColor c # ops) = paint (st\<lparr> shadowColor := c \<rparr>) ops"
| "paint st (Set_shadowBlur b # ops) = paint (st\<lparr> shadowBlur := b \<rparr>) ops"
| "paint st (Set_shadowOffsetX d # ops) = paint (st\<lparr> shadowOffsetX := d \<rparr>) ops"
| "paint st (Set_shadowOffsetY d # ops) = paint (st\<lparr> shadowOffsetY := d \<rparr>) ops"
| "paint st (Set_font f # ops) = paint st ops"
| "paint st (Set_fillStyle c # ops) = paint st ops"
| "paint st (Set_textAlign a # ops) = paint st ops"
| "paint st (Set_direction d # ops) = paint st ops"

text \<open>
  The steps of the routine that the order of drawing is about: a drawing call, or an
  assignment to the shadow colour, which switches the shadow on or off.
\<close>

datatype paint_step = DrawStep drawn | ShadowOn | ShadowOff

fun paint_steps :: "ctx_op list \<Rightarrow> paint_step list" where
  "paint_steps [] = []"
| "paint_steps (DrawImage img x y w h # ops) = DrawStep (DrawnImage img) # paint_steps ops"
| "paint_steps (FillText t x y # ops) = DrawStep (DrawnText t) # paint_steps ops"
| "paint_steps (Set_shadowColor c # ops) =
     (if transparent_colour c then ShadowOff else ShadowOn) # paint_steps ops"
| "paint_steps (op # ops) = paint_steps ops"

subsection \<open>The handler\<close>

text \<open>
  The browser decides whether an image reference decodes (\<^verbatim>\<open>onload\<close> or
  \<^verbatim>\<open>onerror\<close>) and whether \<^verbatim>\<open>getContext('2d')\<close> returns a context.
\<close>

record dl_env =
  load_image :: "string \<Rightarrow> image option"
  context_available :: bool

text \<open>
  The file handed to the browser: its name, and the canvas it encodes, which is its
  size and the operations drawn on it.
\<close>

record artifact =
  art_filename :: string
  art_width :: nat
  art_height :: nat
  art_ops :: "ctx_op list"

record dl_result =
  dl_error :: "string option"
  dl_ops :: "ctx_op list"
  dl_file :: "artifact option"

text \<open>
  Lines 82 to 156 with the values captured when the button was clicked: the two
  references, name, district and font.
\<close>

definition run_download ::
  "dl_env \<Rightarrow> string \<Rightarrow> string \<Rightarrow> string \<Rightarrow> string \<Rightarrow> string \<Rightarrow> dl_result" where
  "run_download env poster icon nm dst fnt =
     (case load_image env poster of
        None \<Rightarrow>
          \<lparr> dl_error = Some ''Could not load poster image to create download file.'',
            dl_ops = [], dl_file = None \<rparr>
      | Some posterImage \<Rightarrow>
          (case load_image env icon of
             None \<Rightarrow>
               \<lparr> dl_error = Some ''Could not load symbol icon to create download file.'',
                 dl_ops = [], dl_file = None \<rparr>
           | Some symbolImage \<Rightarrow>
               if \<not> context_available env
               then \<lparr> dl_error = Some ''Could not create canvas context for download.'',
                      dl_ops = [], dl_file = None \<rparr>
               else (let g = compute_layout (img_width posterImage) (img_height posterImage);
                         ops = draw_ops posterImage symbolImage nm dst fnt
                     in \<lparr> dl_error = None, dl_ops = ops,
                          dl_file = Some \<lparr> art_filename = ''my-election-poster.png'',
                                          art_width = canvasWidth g,
                                          art_height = canvasHeight g,
                                          art_ops = ops \<rparr> \<rparr>)))"

text \<open>Lines 77 to 80: the guard and the synchronous part.\<close>

definition download_blocked :: "app_state \<Rightarrow> bool" where
  "download_blocked s =
     (\<not> truthy_opt_str (selectedPoster s) \<or> \<not> truthy_opt_str (symbolImageUrl s))"

definition download_begin :: "app_state \<Rightarrow> app_state" where
  "download_begin s =
     (if download_blocked s then s else s\<lparr> isDownloading := True, error := None \<rparr>)"

text \<open>
  The setters of the callbacks: every failing path sets the error and clears the flag,
  the successful one clears the flag. They act on the state as it is by then.
\<close>

definition download_settle :: "dl_result \<Rightarrow> app_state \<Rightarrow> app_state" where
  "download_settle r s =
     (case dl_error r of
        Some m \<Rightarrow> s\<lparr> error := Some m, isDownloading := False \<rparr>
      | None \<Rightarrow> s\<lparr> isDownloading := False \<rparr>)"

definition handleDownload :: "dl_env \<Rightarrow> app_state \<Rightarrow> app_state \<times> dl_result option" where
  "handleDownload env s =
     (if download_blocked s then (s, None)
      else (case (selectedPoster s, symbolImageUrl s) of
              (Some poster, Some icon) \<Rightarrow>
                (let r = run_download env poster icon (name s) (district s) (selectedFont s)
                 in (download_settle r (download_begin s), Some r))
            | _ \<Rightarrow> (s, None)))"


section \<open>The component as a transition system\<close>

text \<open>
  What can happen to the state: the user acts on a widget, or a pending asynchronous
  operation settles. The setters called by one handler run take effect together. A
  settling event may carry any outcome and is accepted in every state, which includes
  all the interleavings the browser can produce.
\<close>

datatype event =
    ImageChange "js_file option" string
  | NameInput string
  | DistrictInput string
  | SymbolInput string
  | FontSelect string
  | GenerateClick
  | GenerateSettled "(string list option \<times> string option) settled"
  | ThumbnailClick nat
  | DownloadClick
  | DownloadSettled dl_result
  | ResetClick

fun app_step :: "event \<Rightarrow> app_state \<Rightarrow> app_state" where
  "app_step (ImageChange file url) s = handleImageChange (\<lambda>f. url) file s"
| "app_step (NameInput v) s = s\<lparr> name := v \<rparr>"
| "app_step (DistrictInput v) s = s\<lparr> district := v \<rparr>"
| "app_step (SymbolInput v) s = s\<lparr> symbol := v \<rparr>"
| "app_step (FontSelect v) s = s\<lparr> selectedFont := v \<rparr>"
| "app_step GenerateClick s =
     (if form_incomplete s
      then s\<lparr> error := Some ''Please fill all fields: photo, name, symbol, and district.'' \<rparr>
      else generate_begin s)"
| "app_step (GenerateSettled r) s = generate_settle r s"
| "app_step (ThumbnailClick i) s = select_poster i s"
| "app_step DownloadClick s = download_begin s"
| "app_step (DownloadSettled r) s = download_settle r s"
| "app_step ResetClick s = handleReset s"

inductive reachable :: "app_state \<Rightarrow> bool" where
  reachable_init: "reachable initial_state"
| reachable_step: "reachable s \<Longrightarrow> reachable (app_step e s)"

fun run_events :: "event list \<Rightarrow> app_state \<Rightarrow> app_state" where
  "run_events [] s = s"
| "run_events (e # es) s = run_events es (app_step e s)"

text \<open>A selected poster is one of the stored ones.\<close>

definition selection_consistent :: "app_state \<Rightarrow> bool" where
  "selection_consistent s =
     (case selectedPoster s of
        None \<Rightarrow> True
      | Some p \<Rightarrow>
          (case generatedPosters s of None \<Rightarrow> False | Some ps \<Rightarrow> p \<in> set ps))"

section \<open>Concrete inputs\<close>

definition example_file :: js_file where
  "example_file = \<lparr> file_name = ''me.png'', file_data = ''photo'' \<rparr>"

definition filled_state :: app_state where
  "filled_state =
     initial_state\<lparr> imageFile := Some example_file, previewUrl := Some ''blob:1'',
                    name := ''Test Name'', symbol := ''palm'', district := ''Example'' \<rparr>"

definition example_gen_env ::
  "string list option settled \<Rightarrow> string option settled \<Rightarrow> gen_env" where
  "example_gen_env posters icon =
     \<lparr> fileToBase64 = (\<lambda>f. Fulfilled (file_data f)),
       getMimeType = (\<lambda>n. Some ''image/png''),
       generatePoster = (\<lambda>a. posters),
       generateSymbolImage = (\<lambda>t. icon),
       poster_settles_first = True \<rparr>"

definition example_poster :: image where
  "example_poster = \<lparr> img_src = ''poster-1'', img_width = 1000, img_height = 1000 \<rparr>"

definition example_icon :: image where
  "example_icon = \<lparr> img_src = ''icon-1'', img_width = 512, img_height = 512 \<rparr>"

definition example_dl_env :: "bool \<Rightarrow> dl_env" where
  "example_dl_env ctx =
     \<lparr> load_image =
         (\<lambda>u. if u = ''poster-1'' then Some example_poster
              else if u = ''icon-1'' then Some example_icon
              else None),
       context_available = ctx \<rparr>"

definition wide_poster :: image where
  "wide_poster = \<lparr> img_src = ''poster-2'', img_width = 1024, img_height = 1000 \<rparr>"

definition tall_poster :: image where
  "tall_poster = \<lparr> img_src = ''poster-3'', img_width = 1, img_height = 1431656 \<rparr>"

text \<open>
  A browser that decodes the references listed, to the images given, and no other.
\<close>

definition dl_env_of :: "(string \<times> image) list \<Rightarrow> bool \<Rightarrow> dl_env" where
  "dl_env_of known ctx = \<lparr> load_image = map_of known, context_available = ctx \<rparr>"

text \<open>A state after a successful generation, with the first of two posters selected.\<close>

definition ready_state :: app_state where
  "ready_state =
     filled_state\<lparr> generatedPosters := Some [''poster-1'', ''poster-2''],
                   selectedPoster := Some ''poster-1'',
                   symbolImageUrl := Some ''icon-1'' \<rparr>"

definition example_events :: "event list" where
  "example_events =
     [ImageChange (Some example_file) ''blob:1'', NameInput ''Test Name'',
      SymbolInput ''palm'', DistrictInput ''Example'', GenerateClick,
      GenerateSettled (Fulfilled (Some [''p1'', ''p2''], Some ''icon-1'')),
      ThumbnailClick 1]"

section \<open>The number model rounds to nearest, ties to even\<close>

lemma nbits_bounds: "0 < n \<Longrightarrow> (2::nat) ^ (nbits n - 1) \<le> n \<and> n < 2 ^ nbits n"
proof (induction n rule: nbits.induct)
  case (1 n)
  show ?case
  proof (cases "n div 2 = 0")
    case True
    with "1.prems" have "n = 1" by (simp add: div_eq_0_iff) 
    then show ?thesis by (simp add: nbits.simps)
  next
    case False
    then have pos: "0 < n div 2" by simp
    from "1.prems" have n0: "n \<noteq> 0" by simp
    from "1.IH" [OF n0 pos]
    have ih: "2 ^ (nbits (n div 2) - 1) \<le> n div 2" "n div 2 < 2 ^ nbits (n div 2)"
      by simp_all
    have k: "0 < nbits (n div 2)"
      using pos by (subst nbits.simps) simp
    have eq: "nbits n = Suc (nbits (n div 2))"
      using n0 by (subst nbits.simps) simp
    have "(2::nat) ^ nbits (n div 2) = 2 * 2 ^ (nbits (n div 2) - 1)"
      using k by (cases "nbits (n div 2)") simp_all
    with ih(1) have lo: "2 ^ nbits (n div 2) \<le> n" by linarith
    from ih(2) have hi: "n < 2 * 2 ^ nbits (n div 2)" by linarith
    from lo hi show ?thesis by (simp add: eq)
  qed
qed

lemma nbits_pos: "0 < n \<Longrightarrow> 0 < nbits n"
  by (subst nbits.simps) simp


lemma ilog2_bounds:
  assumes "0 < a"
  shows "pow2 (ilog2 a) \<le> a \<and> a < pow2 (ilog2 a + 1)"
proof (cases "1 \<le> a")
  case True
  define n where "n = nat \<lfloor>a\<rfloor>"
  have fl1: "1 \<le> \<lfloor>a\<rfloor>" using True by simp
  then have n: "0 < n" and nf: "int n = \<lfloor>a\<rfloor>" by (simp_all add: n_def)
  from nbits_bounds [OF n] have b: "2 ^ (nbits n - 1) \<le> n" "n < 2 ^ nbits n"
    by simp_all
  have k: "0 < nbits n" using n by (rule nbits_pos)
  have e: "ilog2 a = int (nbits n) - 1"
    using True by (simp add: ilog2_def n_def)
  have p1: "pow2 (ilog2 a) = 2 ^ (nbits n - 1)"
    using k by (simp add: e pow2_def nat_diff_distrib' of_nat_diff)
  have p2: "pow2 (ilog2 a + 1) = 2 ^ nbits n"
    by (simp add: e pow2_def)
  have "rat_of_nat (2 ^ (nbits n - 1)) \<le> of_nat n"
    using b(1) by (simp only: of_nat_le_iff)
  also have "rat_of_nat n = of_int \<lfloor>a\<rfloor>" using nf by (metis of_int_of_nat_eq)
  also have "\<dots> \<le> a" by simp
  finally have lo: "2 ^ (nbits n - 1) \<le> a" by simp
  have "int (Suc n) \<le> int (2 ^ nbits n)"
    using b(2) by (simp only: of_nat_le_iff Suc_le_eq)
  then have "int n + 1 \<le> 2 ^ nbits n" by simp
  then have "\<lfloor>a\<rfloor> + 1 \<le> 2 ^ nbits n" using nf by simp
  then have "rat_of_int (\<lfloor>a\<rfloor> + 1) \<le> of_int (2 ^ nbits n)"
    by (simp only: of_int_le_iff)
  moreover have "a < of_int (\<lfloor>a\<rfloor> + 1)" by linarith
  ultimately have hi: "a < 2 ^ nbits n" by simp
  from lo hi show ?thesis by (simp add: p1 p2)
next
  case False
  define b where "b = 1 / a"
  define m where "m = nat (\<lceil>b\<rceil> - 1)"
  from False assms have b1: "1 < b" by (simp add: b_def)
  then have c2: "2 \<le> \<lceil>b\<rceil>" by (simp add: le_ceiling_iff) 
  then have m: "0 < m" and mc: "int m = \<lceil>b\<rceil> - 1" by (simp_all add: m_def)
  from nbits_bounds [OF m] have nb: "2 ^ (nbits m - 1) \<le> m" "m < 2 ^ nbits m"
    by simp_all
  have k: "0 < nbits m" using m by (rule nbits_pos)
  have e: "ilog2 a = - int (nbits m)"
    using False by (simp add: ilog2_def m_def b_def)
  have p1: "pow2 (ilog2 a) = 1 / 2 ^ nbits m"
    using k by (simp add: e pow2_def)
  have p2: "pow2 (ilog2 a + 1) = 1 / 2 ^ (nbits m - 1)"
  proof (cases "nbits m = 1")
    case True
    then show ?thesis by (simp add: e pow2_def)
  next
    case False
    with k have "1 < nbits m" by simp
    then have "nat (int (nbits m) - 1) = nbits m - 1" by simp
    with \<open>1 < nbits m\<close> show ?thesis by (simp add: e pow2_def)
  qed
  have "int (Suc m) \<le> int (2 ^ nbits m)"
    using nb(2) by (simp only: of_nat_le_iff Suc_le_eq)
  then have "int m + 1 \<le> 2 ^ nbits m" by simp
  then have "\<lceil>b\<rceil> \<le> 2 ^ nbits m" using mc by simp
  then have "b \<le> of_int (2 ^ nbits m)" by (simp only: ceiling_le_iff)
  then have bhi: "b \<le> 2 ^ nbits m" by simp
  have "rat_of_nat (2 ^ (nbits m - 1)) \<le> of_nat m"
    using nb(1) by (simp only: of_nat_le_iff)
  also have "rat_of_nat m = of_int (\<lceil>b\<rceil> - 1)" using mc by (metis of_int_of_nat_eq)
  also have "\<dots> < b" by linarith
  finally have blo: "2 ^ (nbits m - 1) < b" by simp
  have apos: "0 < a" by fact
  have lo: "1 / 2 ^ nbits m \<le> a"
    using bhi apos by (simp add: b_def field_simps)
  have hi: "a < 1 / 2 ^ (nbits m - 1)"
    using blo apos by (simp add: b_def field_simps)
  from lo hi show ?thesis by (simp add: p1 p2)
qed

lemma pow2_power_int: "pow2 e = power_int 2 e"
  by (simp add: pow2_def power_int_def inverse_eq_divide power_one_over)

lemma pow2_add: "pow2 (d + e) = pow2 d * pow2 e"
  by (simp add: pow2_power_int power_int_add)

lemma pow2_pos: "0 < pow2 e"
  by (simp add: pow2_def)

lemma pow2_mono: "d \<le> e \<Longrightarrow> pow2 d \<le> pow2 e"
  by (simp add: pow2_power_int power_int_increasing)

lemma pow2_53: "pow2 53 = 2 ^ 53" and pow2_52: "pow2 52 = 2 ^ 52"
  by (simp_all add: pow2_def)

lemma round_half_even_error: "\<bar>of_int (round_half_even q) - q\<bar> \<le> 1 / 2"
proof -
  have "of_int \<lfloor>q\<rfloor> \<le> q" "q < of_int \<lfloor>q\<rfloor> + 1" by linarith+
  then show ?thesis
    by (auto simp: round_half_even_def Let_def)
qed

lemma round_half_even_tie:
  "\<bar>of_int (round_half_even q) - q\<bar> = 1 / 2 \<Longrightarrow> even (round_half_even q)"
proof -
  assume t: "\<bar>of_int (round_half_even q) - q\<bar> = 1 / 2"
  have "of_int \<lfloor>q\<rfloor> \<le> q" "q < of_int \<lfloor>q\<rfloor> + 1" by linarith+
  with t show ?thesis
    by (auto simp: round_half_even_def Let_def split: if_splits)
qed

lemma round_half_even_nearest:
  "\<bar>of_int (round_half_even q) - q\<bar> \<le> \<bar>of_int k - q\<bar>"
proof (cases "k \<le> \<lfloor>q\<rfloor>")
  case True
  then have "rat_of_int k \<le> of_int \<lfloor>q\<rfloor>" by (simp only: of_int_le_iff)
  moreover have "of_int \<lfloor>q\<rfloor> \<le> q" "q < of_int \<lfloor>q\<rfloor> + 1" by linarith+
  ultimately show ?thesis
    by (auto simp: round_half_even_def Let_def)
next
  case False
  then have "\<lfloor>q\<rfloor> + 1 \<le> k" by simp
  then have "rat_of_int (\<lfloor>q\<rfloor> + 1) \<le> of_int k" by (simp only: of_int_le_iff)
  moreover have "of_int \<lfloor>q\<rfloor> \<le> q" "q < of_int \<lfloor>q\<rfloor> + 1" by linarith+
  ultimately show ?thesis
    by (auto simp: round_half_even_def Let_def)
qed

lemma round_half_even_mono_int:
  assumes "of_int k \<le> q" and "q \<le> of_int l"
  shows "k \<le> round_half_even q \<and> round_half_even q \<le> l"
proof -
  from assms(1) have a: "k \<le> \<lfloor>q\<rfloor>" by (simp add: le_floor_iff)
  have b: "\<lfloor>q\<rfloor> = l \<or> \<lfloor>q\<rfloor> + 1 \<le> l"
  proof -
    have "\<lfloor>q\<rfloor> \<le> l" using assms(2) by (simp add: floor_le_iff)
    then show ?thesis by linarith
  qed
  have c: "q - of_int \<lfloor>q\<rfloor> = 0" if "\<lfloor>q\<rfloor> = l"
    using that assms(2) by (metis diff_self floor_le_iff le_floor_iff order.antisym of_int_floor_le order_refl floor_of_int)
  show ?thesis
    using a b c by (auto simp: round_half_even_def Let_def)
qed

text \<open>
  \<open>fl x\<close> is a multiple \<open>m * spacing x\<close> of the spacing with at most 53 significant
  bits in \<open>m\<close> (exactly 53 above the subnormal range), no multiple of the spacing is
  nearer to \<open>x\<close>, and in a tie \<open>m\<close> is even: round to nearest, ties to even.
\<close>

lemma fl_nearest_even:
  assumes "x \<noteq> 0"
  shows "\<exists>m. fl x = of_int m * spacing x \<and> \<bar>m\<bar> \<le> 2 ^ 53 \<and>
             (\<forall>k. \<bar>fl x - x\<bar> \<le> \<bar>of_int k * spacing x - x\<bar>) \<and>
             \<bar>fl x - x\<bar> \<le> spacing x / 2 \<and>
             (\<bar>fl x - x\<bar> = spacing x / 2 \<longrightarrow> even m) \<and>
             (- 1022 \<le> ilog2 \<bar>x\<bar> \<longrightarrow> 2 ^ 52 \<le> \<bar>m\<bar>)"
proof -
  define a where "a = \<bar>x\<bar>"
  define e where "e = max (ilog2 a) (- 1022)"
  define u where "u = spacing x"
  define r where "r = round_half_even (a / u)"
  have u: "0 < u" by (simp add: u_def spacing_def pow2_pos)
  have a: "0 < a" using assms(1) by (simp add: a_def)
  have ue: "u = pow2 (e - 52)" by (simp add: u_def spacing_def e_def a_def)
  have flx: "fl x = sgn x * of_int r * u"
    using assms(1) by (simp add: fl_def Let_def r_def a_def u_def)
  have xa: "x = sgn x * a" by (simp add: a_def sgn_mult_abs)
  have sg: "\<bar>sgn x\<bar> = 1" using assms(1) by (simp add: abs_sgn_eq)
  have q0: "0 \<le> a / u" using a u by simp
  have r0: "0 \<le> r"
    using round_half_even_mono_int [of 0 "a / u" "\<lceil>a / u\<rceil>"] q0
    unfolding r_def by simp
  have dist: "\<bar>sgn x * of_int k * u - x\<bar> = u * \<bar>of_int k - a / u\<bar>" for k :: int
  proof -
    have "sgn x * of_int k * u - x = sgn x * (of_int k * u - a)"
      using xa by (metis mult.assoc right_diff_distrib)
    then have "\<bar>sgn x * of_int k * u - x\<bar> = \<bar>sgn x\<bar> * \<bar>of_int k * u - a\<bar>"
      by (simp only: abs_mult)
    then have "\<bar>sgn x * of_int k * u - x\<bar> = \<bar>of_int k * u - a\<bar>"
      by (simp only: sg mult_1)
    also have "of_int k * u - a = u * (of_int k - a / u)"
      using u by (simp add: field_simps)
    finally show ?thesis using u by (simp add: abs_mult)
  qed
  have err: "\<bar>fl x - x\<bar> = u * \<bar>of_int r - a / u\<bar>"
    unfolding flx by (rule dist)
  have half: "\<bar>fl x - x\<bar> \<le> u / 2"
    using round_half_even_error [of "a / u"] u
    unfolding err r_def by (simp add: field_simps)
  have near: "\<bar>fl x - x\<bar> \<le> \<bar>of_int k * u - x\<bar>" for k :: int
  proof -
    define j where "j = (if 0 < x then k else - k)"
    have "of_int k * u = sgn x * of_int j * u"
      using assms(1) by (simp add: j_def sgn_if)
    then have "\<bar>of_int k * u - x\<bar> = u * \<bar>of_int j - a / u\<bar>"
      by (simp only: dist)
    moreover have "\<bar>of_int r - a / u\<bar> \<le> \<bar>of_int j - a / u\<bar>"
      unfolding r_def by (rule round_half_even_nearest)
    ultimately show ?thesis
      using u by (simp add: err)
  qed
  have tie: "even r" if "\<bar>fl x - x\<bar> = u / 2"
  proof -
    from that u have "\<bar>of_int r - a / u\<bar> = 1 / 2"
      unfolding err by (simp add: field_simps)
    then show ?thesis unfolding r_def by (rule round_half_even_tie)
  qed
  have ahi: "a < pow2 (e + 1)"
  proof -
    have "a < pow2 (ilog2 a + 1)" using ilog2_bounds [OF a] by simp
    also have "\<dots> \<le> pow2 (e + 1)" by (rule pow2_mono) (simp add: e_def)
    finally show ?thesis .
  qed
  have "pow2 53 * u = pow2 (53 + (e - 52))"
    unfolding ue by (rule pow2_add [symmetric])
  moreover have "53 + (e - 52) = e + 1" by simp
  ultimately have "pow2 (e + 1) = pow2 53 * u" by simp
  with ahi u have qhi: "a / u \<le> 2 ^ 53"
    by (simp add: pow2_53 field_simps)
  have rhi: "r \<le> 2 ^ 53"
    using round_half_even_mono_int [of 0 "a / u" "2 ^ 53"] q0 qhi
    unfolding r_def by simp
  have rlo: "2 ^ 52 \<le> r" if "- 1022 \<le> ilog2 a"
  proof -
    from that have "e = ilog2 a" by (simp add: e_def)
    then have lo: "pow2 e \<le> a" using ilog2_bounds [OF a] by simp
    have "pow2 52 * u = pow2 (52 + (e - 52))"
      unfolding ue by (rule pow2_add [symmetric])
    then have "pow2 e = pow2 52 * u" by simp
    with lo have "2 ^ 52 \<le> a / u"
      using u by (simp add: pow2_52 field_simps)
    then show ?thesis
      using round_half_even_mono_int [of "2 ^ 52" "a / u" "2 ^ 53"] qhi
      unfolding r_def by simp
  qed
  define m where "m = (if 0 < x then r else - r)"
  have m1: "fl x = of_int m * u"
    using assms(1) by (simp add: flx m_def sgn_if)
  have m2: "\<bar>m\<bar> = r" using r0 by (simp add: m_def)
  have m3: "even m = even r" by (simp add: m_def)
  have f1: "fl x = of_int m * spacing x"
    using m1 by (simp only: u_def)
  have f2: "\<bar>m\<bar> \<le> 2 ^ 53"
    using rhi by (simp only: m2)
  have f3: "\<forall>k. \<bar>fl x - x\<bar> \<le> \<bar>of_int k * spacing x - x\<bar>"
    using near unfolding u_def by blast
  have f4: "\<bar>fl x - x\<bar> \<le> spacing x / 2"
    using half by (simp only: u_def)
  have f5: "\<bar>fl x - x\<bar> = spacing x / 2 \<longrightarrow> even m"
    using tie unfolding u_def m3 by blast
  have f6: "- 1022 \<le> ilog2 \<bar>x\<bar> \<longrightarrow> 2 ^ 52 \<le> \<bar>m\<bar>"
    using rlo unfolding a_def m2 by blast
  from f1 f2 f3 f4 f5 f6 show ?thesis
    by blast
qed

section \<open>Frame properties of upload and reset\<close>

text \<open>
  C9. Uploading a file clears the poster set, the selection, the icon and the error,
  and leaves name, district, symbol and font as they were; with no file the state is
  unchanged.
\<close>

theorem C9_upload_frame:
  "generatedPosters (handleImageChange mk (Some f) s) = None \<and>
   selectedPoster (handleImageChange mk (Some f) s) = None \<and>
   symbolImageUrl (handleImageChange mk (Some f) s) = None \<and>
   error (handleImageChange mk (Some f) s) = None \<and>
   name (handleImageChange mk (Some f) s) = name s \<and>
   district (handleImageChange mk (Some f) s) = district s \<and>
   symbol (handleImageChange mk (Some f) s) = symbol s \<and>
   selectedFont (handleImageChange mk (Some f) s) = selectedFont s \<and>
   handleImageChange mk None s = s"
  by (simp add: handleImageChange_def)

text \<open>
  C10. Reset clears the image, the preview, the three text fields, the poster set, the
  selection, the icon and the error, and switches loading off; the download flag is
  the one it had, so a download in flight stays flagged.
\<close>

theorem C10_reset_frame:
  "imageFile (handleReset s) = None \<and>
   previewUrl (handleReset s) = None \<and>
   name (handleReset s) = [] \<and>
   district (handleReset s) = [] \<and>
   symbol (handleReset s) = [] \<and>
   generatedPosters (handleReset s) = None \<and>
   selectedPoster (handleReset s) = None \<and>
   symbolImageUrl (handleReset s) = None \<and>
   error (handleReset s) = None \<and>
   isLoading (handleReset s) = False \<and>
   isDownloading (handleReset s) = isDownloading s \<and>
   handleReset (s\<lparr> isDownloading := True \<rparr>) = (handleReset s)\<lparr> isDownloading := True \<rparr>"
  by (simp add: handleReset_def)

section \<open>Generation\<close>

lemma not_incomplete_file: "\<not> form_incomplete s \<Longrightarrow> \<exists>f. imageFile s = Some f"
  by (auto simp: form_incomplete_def)

lemma generate_settle_empty:
  "generate_settle (Fulfilled (Some [], v)) s =
     s\<lparr> error := Some ''The AI model did not return any poster images. Please try again.'',
        isLoading := False \<rparr>"
  by (simp add: generate_settle_def)

lemma generate_settle_rejected:
  "generate_settle (Rejected e) s = s\<lparr> error := Some (catch_message e), isLoading := False \<rparr>"
  by (simp add: generate_settle_def)


text \<open>
  C1. One of the two calls delivers, the other delivers nothing: the request is to end
  with the error set and with poster set, selection and icon all empty. Evaluated at a
  complete form, a poster call that returns two posters and an icon call that returns
  \<^verbatim>\<open>null\<close>: the error is set and the icon is empty, but the two posters stay stored
  and the first stays selected, since lines 56 and 57 ran before the \<^verbatim>\<open>throw\<close> of
  line 65.
\<close>

theorem C1_icon_missing_keeps_posters:
  "error (handleGenerateClick
            (example_gen_env (Fulfilled (Some [''p1'', ''p2''])) (Fulfilled None)) filled_state)
     = Some ''The AI model failed to generate an icon for the symbol.'' \<and>
   generatedPosters (handleGenerateClick
            (example_gen_env (Fulfilled (Some [''p1'', ''p2''])) (Fulfilled None)) filled_state)
     = Some [''p1'', ''p2''] \<and>
   selectedPoster (handleGenerateClick
            (example_gen_env (Fulfilled (Some [''p1'', ''p2''])) (Fulfilled None)) filled_state)
     = Some ''p1'' \<and>
   symbolImageUrl (handleGenerateClick
            (example_gen_env (Fulfilled (Some [''p1'', ''p2''])) (Fulfilled None)) filled_state)
     = None"
  by (simp add: handleGenerateClick_def example_gen_env_def filled_state_def initial_state_def
      form_incomplete_def truthy_str_def truthy_opt_str_def generate_remote_def promise_all_def
      generate_settle_def generate_begin_def example_file_def)

text \<open>
  An empty poster list never ends in the result view: the error cell is set, nothing is
  stored or selected. When the conversion of the photo and the icon call both deliver,
  the message is that of line 59 and the error box is shown.
\<close>

lemma empty_posters_never_succeed:
  assumes complete: "\<not> form_incomplete s"
    and poster: "\<And>a. generatePoster env a = Fulfilled (Some [])"
  shows "error (handleGenerateClick env s) \<noteq> None \<and>
         generatedPosters (handleGenerateClick env s) = None \<and>
         selectedPoster (handleGenerateClick env s) = None \<and>
         symbolImageUrl (handleGenerateClick env s) = None \<and>
         \<not> isLoading (handleGenerateClick env s) \<and>
         \<not> result_view (handleGenerateClick env s)"
proof -
  from complete obtain f where f: "imageFile s = Some f"
    using not_incomplete_file by blast
  have "(\<exists>e. generate_remote env f (symbol s) = Rejected e) \<or>
        (\<exists>v. generate_remote env f (symbol s) = Fulfilled (Some [], v))"
    by (auto simp: generate_remote_def promise_all_def poster Let_def split: settled.splits)
  then show ?thesis
    using complete f
    by (auto simp: handleGenerateClick_def generate_settle_empty generate_settle_rejected
        generate_begin_def result_view_def)
qed

lemma empty_posters_error_shown:
  assumes complete: "\<not> form_incomplete s"
    and conv: "\<And>f. \<exists>b. fileToBase64 env f = Fulfilled b"
    and poster: "\<And>a. generatePoster env a = Fulfilled (Some [])"
    and icon: "\<And>t. \<exists>v. generateSymbolImage env t = Fulfilled v"
  shows "error (handleGenerateClick env s) =
           Some ''The AI model did not return any poster images. Please try again.'' \<and>
         error_view (handleGenerateClick env s)"
proof -
  from complete obtain f where f: "imageFile s = Some f"
    using not_incomplete_file by blast
  from conv obtain b where b: "fileToBase64 env f = Fulfilled b" by blast
  from icon obtain v where v: "generateSymbolImage env (symbol s) = Fulfilled v" by blast
  have "generate_remote env f (symbol s) = Fulfilled (Some [], v)"
    by (simp add: generate_remote_def promise_all_def poster b v Let_def)
  then show ?thesis
    using complete f
    by (simp add: handleGenerateClick_def generate_settle_empty generate_begin_def
        error_view_def truthy_opt_str_def truthy_str_def)
qed

text \<open>
  C7. A request whose poster call returns an empty list is to end in the failure state
  with an error message set. Evaluated at a complete form, a poster call that returns
  \<open>[]\<close> and an icon call that rejects with an \<^verbatim>\<open>Error\<close> whose message is empty:
  \<^verbatim>\<open>Promise.all\<close> rejects, line 70 stores the empty message, and an empty string is
  no error for lines 251 and 297, so the error box is not shown and the placeholder is.
  The fixed texts of the handler (lines 36, 59 and 65, and line 70 for a thrown value
  that is no \<^verbatim>\<open>Error\<close>) are all non-empty.
\<close>

theorem C7_empty_message_shows_no_error:
  "error (handleGenerateClick
            (example_gen_env (Fulfilled (Some [])) (Rejected (ErrorObj [])))
            filled_state) = Some [] \<and>
   \<not> error_view (handleGenerateClick
            (example_gen_env (Fulfilled (Some [])) (Rejected (ErrorObj [])))
            filled_state) \<and>
   placeholder_view (handleGenerateClick
            (example_gen_env (Fulfilled (Some [])) (Rejected (ErrorObj [])))
            filled_state)"
  by (simp add: handleGenerateClick_def example_gen_env_def filled_state_def initial_state_def
      form_incomplete_def truthy_str_def truthy_opt_str_def generate_remote_def promise_all_def
      generate_settle_def generate_begin_def example_file_def catch_message_def
      error_view_def placeholder_view_def)


lemma select_poster_posters [simp]:
  "generatedPosters (select_poster i s) = generatedPosters s"
  by (simp add: select_poster_def split: option.splits)

lemma select_posters_posters [simp]:
  "generatedPosters (select_posters js s) = generatedPosters s"
  by (induction js arbitrary: s) simp_all





section \<open>The selection invariant\<close>

lemma selection_consistent_generate_settle:
  assumes "selection_consistent s"
  shows "selection_consistent (generate_settle r s)"
proof (cases r)
  case (Rejected e)
  with assms show ?thesis
    by (simp add: generate_settle_def selection_consistent_def split: option.splits)
next
  case (Fulfilled v)
  obtain posters icon where v: "v = (posters, icon)"
    by (cases v)
  show ?thesis
  proof (cases posters)
    case None
    with assms Fulfilled v show ?thesis
      by (simp add: generate_settle_def selection_consistent_def split: option.splits)
  next
    case (Some ps)
    with assms Fulfilled v show ?thesis
      by (cases ps)
         (simp_all add: generate_settle_def selection_consistent_def Let_def
            split: option.splits)
  qed
qed

lemma selection_consistent_select:
  assumes "selection_consistent s"
  shows "selection_consistent (select_poster i s)"
  using assms
  by (auto simp: select_poster_def selection_consistent_def
      split: option.splits)

lemma selection_consistent_step:
  assumes "selection_consistent s"
  shows "selection_consistent (app_step e s)"
proof (cases e)
  case (ImageChange upload url)
  with assms show ?thesis
    by (cases upload) (simp_all add: handleImageChange_def selection_consistent_def)
next
  case GenerateClick
  with assms show ?thesis
    by (simp add: generate_begin_def selection_consistent_def split: option.splits)
next
  case (GenerateSettled r)
  with assms show ?thesis
    by (simp add: selection_consistent_generate_settle)
next
  case (ThumbnailClick i)
  with assms show ?thesis
    by (simp add: selection_consistent_select)
next
  case DownloadClick
  with assms show ?thesis
    by (simp add: download_begin_def selection_consistent_def split: option.splits)
next
  case (DownloadSettled r)
  with assms show ?thesis
    by (simp add: download_settle_def selection_consistent_def split: option.splits)
next
  case ResetClick
  with assms show ?thesis
    by (simp add: handleReset_def selection_consistent_def)
qed (use assms in \<open>simp_all add: selection_consistent_def split: option.splits\<close>)

lemma reachable_run_events: "reachable s \<Longrightarrow> reachable (run_events es s)"
  by (induction es arbitrary: s) (simp_all add: reachable_step)

lemma example_run:
  "run_events example_events initial_state =
     \<lparr> imageFile = Some example_file, previewUrl = Some ''blob:1'', name = ''Test Name'',
       symbol = ''palm'', district = ''Example'', selectedFont = ''Cairo'',
       generatedPosters = Some [''p1'', ''p2''], selectedPoster = Some ''p2'',
       symbolImageUrl = Some ''icon-1'', isLoading = False, isDownloading = False,
       error = None \<rparr>"
  by (simp add: example_events_def initial_state_def handleImageChange_def form_incomplete_def
      truthy_str_def truthy_opt_str_def generate_begin_def generate_settle_def
      select_poster_def result_view_def)

text \<open>
  C8. In every reachable state a selected poster is an element of the stored poster
  list, and every transition keeps it so.
\<close>

theorem C8_selected_among_generated:
  "(reachable s \<longrightarrow>
      (\<forall>p. selectedPoster s = Some p \<longrightarrow>
           (\<exists>ps. generatedPosters s = Some ps \<and> p \<in> set ps))) \<and>
   (selection_consistent s \<longrightarrow> selection_consistent (app_step e s))"
proof -
  have inv: "selection_consistent t" if "reachable t" for t
    using that
  proof (induction rule: reachable.induct)
    case reachable_init
    show ?case by (simp add: selection_consistent_def initial_state_def)
  next
    case (reachable_step s e)
    then show ?case by (simp add: selection_consistent_step)
  qed
  have "\<exists>ps. generatedPosters t = Some ps \<and> p \<in> set ps"
    if "selection_consistent t" "selectedPoster t = Some p" for t p
    using that by (auto simp: selection_consistent_def split: option.splits)
  with inv show ?thesis
    using selection_consistent_step by blast
qed

theorem C8_selected_among_generated_witness:
  "reachable (run_events example_events initial_state) \<and>
   selectedPoster (run_events example_events initial_state) = Some ''p2'' \<and>
   (\<exists>ps. generatedPosters (run_events example_events initial_state) = Some ps \<and>
         ''p2'' \<in> set ps) \<and>
   selection_consistent (run_events example_events initial_state) \<and>
   selection_consistent (app_step ResetClick (run_events example_events initial_state))"
proof -
  let ?s = "run_events example_events initial_state"
  have r: "reachable ?s"
    by (rule reachable_run_events [OF reachable_init])
  have p: "selectedPoster ?s = Some ''p2''"
    by (simp add: example_run)
  have c: "selection_consistent ?s"
    by (simp add: example_run selection_consistent_def)
  from C8_selected_among_generated [of ?s ResetClick] r p c show ?thesis
    by blast
qed

section \<open>Download\<close>

lemma download_settle_clears: "isDownloading (download_settle r s) = False"
  by (simp add: download_settle_def split: option.splits)

lemma run_download_success:
  assumes "load_image env poster = Some posterImage"
    and "load_image env icon = Some symbolImage"
    and "context_available env"
  shows "dl_error (run_download env poster icon nm dst fnt) = None"
    and "dl_ops (run_download env poster icon nm dst fnt) =
           draw_ops posterImage symbolImage nm dst fnt"
    and "dl_file (run_download env poster icon nm dst fnt) =
           Some \<lparr> art_filename = ''my-election-poster.png'',
                  art_width = canvasWidth
                    (compute_layout (img_width posterImage) (img_height posterImage)),
                  art_height = canvasHeight
                    (compute_layout (img_width posterImage) (img_height posterImage)),
                  art_ops = draw_ops posterImage symbolImage nm dst fnt \<rparr>"
  using assms by (simp_all add: run_download_def Let_def)

lemma paint_steps_draw_ops:
  "paint_steps (draw_ops posterImage symbolImage nm dst fnt) =
     [DrawStep (DrawnImage posterImage), ShadowOn, DrawStep (DrawnText nm),
      DrawStep (DrawnText (districtText dst)), ShadowOff, DrawStep (DrawnImage symbolImage)]"
  by (simp add: draw_ops_def Let_def transparent_colour_def)

lemma paint_draw_ops:
  "paint initial_shadow (draw_ops posterImage symbolImage nm dst fnt) =
     [(DrawnImage posterImage, False), (DrawnText nm, True),
      (DrawnText (districtText dst), True), (DrawnImage symbolImage, False)]"
  by (simp add: draw_ops_def Let_def initial_shadow_def shadow_active_def
      transparent_colour_def)

lemma not_blocked:
  assumes "selectedPoster s = Some poster" and "symbolImageUrl s = Some icon"
    and "truthy_str poster" and "truthy_str icon"
  shows "\<not> download_blocked s"
  using assms by (simp add: download_blocked_def truthy_opt_str_def)

lemma handleDownload_run:
  assumes "selectedPoster s = Some poster" and "symbolImageUrl s = Some icon"
    and "truthy_str poster" and "truthy_str icon"
  shows "handleDownload env s =
           (download_settle
              (run_download env poster icon (name s) (district s) (selectedFont s))
              (s\<lparr> isDownloading := True, error := None \<rparr>),
            Some (run_download env poster icon (name s) (district s) (selectedFont s)))"
  using assms not_blocked [OF assms]
  by (simp add: handleDownload_def download_begin_def Let_def)

lemma run_download_poster_failed:
  "load_image env poster = None \<Longrightarrow>
   run_download env poster icon nm dst fnt =
     \<lparr> dl_error = Some ''Could not load poster image to create download file.'',
       dl_ops = [], dl_file = None \<rparr>"
  by (simp add: run_download_def)

lemma run_download_icon_failed:
  "load_image env poster = Some posterImage \<Longrightarrow> load_image env icon = None \<Longrightarrow>
   run_download env poster icon nm dst fnt =
     \<lparr> dl_error = Some ''Could not load symbol icon to create download file.'',
       dl_ops = [], dl_file = None \<rparr>"
  by (simp add: run_download_def)

lemma run_download_no_context:
  "load_image env poster = Some posterImage \<Longrightarrow> load_image env icon = Some symbolImage \<Longrightarrow>
   \<not> context_available env \<Longrightarrow>
   run_download env poster icon nm dst fnt =
     \<lparr> dl_error = Some ''Could not create canvas context for download.'',
       dl_ops = [], dl_file = None \<rparr>"
  by (simp add: run_download_def)

lemma run_download_done:
  "load_image env poster = Some posterImage \<Longrightarrow> load_image env icon = Some symbolImage \<Longrightarrow>
   context_available env \<Longrightarrow>
   run_download env poster icon nm dst fnt =
     \<lparr> dl_error = None,
       dl_ops = draw_ops posterImage symbolImage nm dst fnt,
       dl_file = Some \<lparr> art_filename = ''my-election-poster.png'',
                        art_width = canvasWidth
                          (compute_layout (img_width posterImage) (img_height posterImage)),
                        art_height = canvasHeight
                          (compute_layout (img_width posterImage) (img_height posterImage)),
                        art_ops = draw_ops posterImage symbolImage nm dst fnt \<rparr> \<rparr>"
  by (simp add: run_download_def Let_def)

text \<open>
  C5. A download started with a poster selected and an icon present ends in one of four
  ways, and each clears the download flag, also when the callbacks find a state other
  than the one the click left. Poster not decoded: the error is the message of line
  154. Icon not decoded: that of line 148. No drawing context: that of line 99, with
  no operation issued on a context and no file. Otherwise the error stays cleared, the
  operations of the routine are issued and the file is produced. The three messages
  differ from one another.
\<close>

theorem C5_download_flag_cleared:
  assumes "selectedPoster s = Some poster" and "symbolImageUrl s = Some icon"
    and "truthy_str poster" and "truthy_str icon"
  shows
    "isDownloading (download_settle (run_download env poster icon nm dst fnt) s') = False \<and>
     (load_image env poster = None \<longrightarrow>
        download_settle (run_download env poster icon nm dst fnt) s' =
          s'\<lparr> error := Some ''Could not load poster image to create download file.'',
              isDownloading := False \<rparr> \<and>
        handleDownload env s =
          (s\<lparr> error := Some ''Could not load poster image to create download file.'',
              isDownloading := False \<rparr>,
           Some \<lparr> dl_error = Some ''Could not load poster image to create download file.'',
                  dl_ops = [], dl_file = None \<rparr>)) \<and>
     (load_image env poster = Some posterImage \<and> load_image env icon = None \<longrightarrow>
        download_settle (run_download env poster icon nm dst fnt) s' =
          s'\<lparr> error := Some ''Could not load symbol icon to create download file.'',
              isDownloading := False \<rparr> \<and>
        handleDownload env s =
          (s\<lparr> error := Some ''Could not load symbol icon to create download file.'',
              isDownloading := False \<rparr>,
           Some \<lparr> dl_error = Some ''Could not load symbol icon to create download file.'',
                  dl_ops = [], dl_file = None \<rparr>)) \<and>
     (load_image env poster = Some posterImage \<and> load_image env icon = Some symbolImage \<and>
        \<not> context_available env \<longrightarrow>
        download_settle (run_download env poster icon nm dst fnt) s' =
          s'\<lparr> error := Some ''Could not create canvas context for download.'',
              isDownloading := False \<rparr> \<and>
        handleDownload env s =
          (s\<lparr> error := Some ''Could not create canvas context for download.'',
              isDownloading := False \<rparr>,
           Some \<lparr> dl_error = Some ''Could not create canvas context for download.'',
                  dl_ops = [], dl_file = None \<rparr>)) \<and>
     (load_image env poster = Some posterImage \<and> load_image env icon = Some symbolImage \<and>
        context_available env \<longrightarrow>
        download_settle (run_download env poster icon nm dst fnt) s' =
          s'\<lparr> isDownloading := False \<rparr> \<and>
        handleDownload env s =
          (s\<lparr> error := None, isDownloading := False \<rparr>,
           Some \<lparr> dl_error = None,
                  dl_ops = draw_ops posterImage symbolImage (name s) (district s) (selectedFont s),
                  dl_file = Some \<lparr> art_filename = ''my-election-poster.png'',
                        art_width = canvasWidth
                          (compute_layout (img_width posterImage) (img_height posterImage)),
                        art_height = canvasHeight
                          (compute_layout (img_width posterImage) (img_height posterImage)),
                        art_ops = draw_ops posterImage symbolImage
                                    (name s) (district s) (selectedFont s) \<rparr> \<rparr>)) \<and>
     distinct [''Could not load poster image to create download file.'',
               ''Could not load symbol icon to create download file.'',
               ''Could not create canvas context for download.'']"
proof -
  note run = handleDownload_run [OF assms]
  have flag: "isDownloading (download_settle (run_download env poster icon nm dst fnt) s') = False"
    by (rule download_settle_clears)
  have poster_path:
    "download_settle (run_download env poster icon nm dst fnt) s' =
       s'\<lparr> error := Some ''Could not load poster image to create download file.'',
           isDownloading := False \<rparr> \<and>
     handleDownload env s =
       (s\<lparr> error := Some ''Could not load poster image to create download file.'',
           isDownloading := False \<rparr>,
        Some \<lparr> dl_error = Some ''Could not load poster image to create download file.'',
               dl_ops = [], dl_file = None \<rparr>)"
    if "load_image env poster = None"
    by (simp add: run run_download_poster_failed [OF that] download_settle_def)
  have icon_path:
    "download_settle (run_download env poster icon nm dst fnt) s' =
       s'\<lparr> error := Some ''Could not load symbol icon to create download file.'',
           isDownloading := False \<rparr> \<and>
     handleDownload env s =
       (s\<lparr> error := Some ''Could not load symbol icon to create download file.'',
           isDownloading := False \<rparr>,
        Some \<lparr> dl_error = Some ''Could not load symbol icon to create download file.'',
               dl_ops = [], dl_file = None \<rparr>)"
    if "load_image env poster = Some posterImage" "load_image env icon = None"
    by (simp add: run run_download_icon_failed [OF that] download_settle_def)
  have context_path:
    "download_settle (run_download env poster icon nm dst fnt) s' =
       s'\<lparr> error := Some ''Could not create canvas context for download.'',
           isDownloading := False \<rparr> \<and>
     handleDownload env s =
       (s\<lparr> error := Some ''Could not create canvas context for download.'',
           isDownloading := False \<rparr>,
        Some \<lparr> dl_error = Some ''Could not create canvas context for download.'',
               dl_ops = [], dl_file = None \<rparr>)"
    if "load_image env poster = Some posterImage" "load_image env icon = Some symbolImage"
       "\<not> context_available env"
    by (simp add: run run_download_no_context [OF that] download_settle_def)
  have done_path:
    "download_settle (run_download env poster icon nm dst fnt) s' =
       s'\<lparr> isDownloading := False \<rparr> \<and>
     handleDownload env s =
       (s\<lparr> error := None, isDownloading := False \<rparr>,
        Some \<lparr> dl_error = None,
               dl_ops = draw_ops posterImage symbolImage (name s) (district s) (selectedFont s),
               dl_file = Some \<lparr> art_filename = ''my-election-poster.png'',
                     art_width = canvasWidth
                       (compute_layout (img_width posterImage) (img_height posterImage)),
                     art_height = canvasHeight
                       (compute_layout (img_width posterImage) (img_height posterImage)),
                     art_ops = draw_ops posterImage symbolImage
                                 (name s) (district s) (selectedFont s) \<rparr> \<rparr>)"
    if "load_image env poster = Some posterImage" "load_image env icon = Some symbolImage"
       "context_available env"
    by (simp add: run run_download_done [OF that] download_settle_def)
  have msgs: "distinct [''Could not load poster image to create download file.'',
               ''Could not load symbol icon to create download file.'',
               ''Could not create canvas context for download.'']"
    by simp
  from flag poster_path icon_path context_path done_path msgs show ?thesis
    by blast
qed

theorem C5_download_flag_cleared_witness:
  "selectedPoster ready_state = Some ''poster-1'' \<and>
   symbolImageUrl ready_state = Some ''icon-1'' \<and>
   truthy_str ''poster-1'' \<and> truthy_str ''icon-1'' \<and>
   load_image (dl_env_of [(''icon-1'', example_icon)] True) ''poster-1'' = None \<and>
   error (fst (handleDownload (dl_env_of [(''icon-1'', example_icon)] True) ready_state))
     = Some ''Could not load poster image to create download file.'' \<and>
   isDownloading (fst (handleDownload (dl_env_of [(''icon-1'', example_icon)] True) ready_state))
     = False \<and>
   load_image (dl_env_of [(''poster-1'', example_poster)] True) ''poster-1''
     = Some example_poster \<and>
   load_image (dl_env_of [(''poster-1'', example_poster)] True) ''icon-1'' = None \<and>
   error (fst (handleDownload (dl_env_of [(''poster-1'', example_poster)] True) ready_state))
     = Some ''Could not load symbol icon to create download file.'' \<and>
   isDownloading (fst (handleDownload (dl_env_of [(''poster-1'', example_poster)] True)
                         ready_state)) = False \<and>
   load_image (example_dl_env False) ''poster-1'' = Some example_poster \<and>
   load_image (example_dl_env False) ''icon-1'' = Some example_icon \<and>
   \<not> context_available (example_dl_env False) \<and>
   error (fst (handleDownload (example_dl_env False) ready_state))
     = Some ''Could not create canvas context for download.'' \<and>
   isDownloading (fst (handleDownload (example_dl_env False) ready_state)) = False \<and>
   map_option dl_ops (snd (handleDownload (example_dl_env False) ready_state)) = Some [] \<and>
   load_image (example_dl_env True) ''poster-1'' = Some example_poster \<and>
   load_image (example_dl_env True) ''icon-1'' = Some example_icon \<and>
   context_available (example_dl_env True) \<and>
   error (fst (handleDownload (example_dl_env True) ready_state)) = None \<and>
   isDownloading (fst (handleDownload (example_dl_env True) ready_state)) = False \<and>
   map_option dl_error (snd (handleDownload (example_dl_env True) ready_state)) = Some None"
proof -
  have s: "selectedPoster ready_state = Some ''poster-1''"
    and u: "symbolImageUrl ready_state = Some ''icon-1''"
    and tp: "truthy_str ''poster-1''" and ti: "truthy_str ''icon-1''"
    by (simp_all add: ready_state_def truthy_str_def)
  note main = C5_download_flag_cleared [OF s u tp ti]
  let ?e1 = "dl_env_of [(''icon-1'', example_icon)] True"
  let ?e2 = "dl_env_of [(''poster-1'', example_poster)] True"
  have a1: "load_image ?e1 ''poster-1'' = None"
    by (simp add: dl_env_of_def)
  from main [of ?e1] a1
  have r1: "handleDownload ?e1 ready_state =
          (ready_state\<lparr> error := Some ''Could not load poster image to create download file.'',
              isDownloading := False \<rparr>,
           Some \<lparr> dl_error = Some ''Could not load poster image to create download file.'',
                  dl_ops = [], dl_file = None \<rparr>)"
    by blast
  have a2: "load_image ?e2 ''poster-1'' = Some example_poster"
    and b2: "load_image ?e2 ''icon-1'' = None"
    by (simp_all add: dl_env_of_def)
  from main [of ?e2 _ _ _ _ example_poster] a2 b2
  have r2: "handleDownload ?e2 ready_state =
          (ready_state\<lparr> error := Some ''Could not load symbol icon to create download file.'',
              isDownloading := False \<rparr>,
           Some \<lparr> dl_error = Some ''Could not load symbol icon to create download file.'',
                  dl_ops = [], dl_file = None \<rparr>)"
    by blast
  have a3: "load_image (example_dl_env False) ''poster-1'' = Some example_poster"
    and b3: "load_image (example_dl_env False) ''icon-1'' = Some example_icon"
    and c3: "\<not> context_available (example_dl_env False)"
    by (simp_all add: example_dl_env_def)
  from main [of "example_dl_env False" _ _ _ _ example_poster example_icon] a3 b3 c3
  have r3: "handleDownload (example_dl_env False) ready_state =
          (ready_state\<lparr> error := Some ''Could not create canvas context for download.'',
              isDownloading := False \<rparr>,
           Some \<lparr> dl_error = Some ''Could not create canvas context for download.'',
                  dl_ops = [], dl_file = None \<rparr>)"
    by blast
  have a4: "load_image (example_dl_env True) ''poster-1'' = Some example_poster"
    and b4: "load_image (example_dl_env True) ''icon-1'' = Some example_icon"
    and c4: "context_available (example_dl_env True)"
    by (simp_all add: example_dl_env_def)
  from main [of "example_dl_env True" _ _ _ _ example_poster example_icon] a4 b4 c4
  have r4: "fst (handleDownload (example_dl_env True) ready_state) =
              ready_state\<lparr> error := None, isDownloading := False \<rparr> \<and>
            map_option dl_error (snd (handleDownload (example_dl_env True) ready_state))
              = Some None"
    by simp
  show ?thesis
    using s u tp ti a1 a2 b2 a3 b3 c3 a4 b4 c4 r4
    by (simp add: r1 r2 r3)
qed

text \<open>
  C4. In a run that gets both images and a context, the drawing steps are, in this
  order: the poster over the whole canvas, shadow on, the name, the caption, shadow
  off, the icon. The two texts are drawn with the shadow active, the poster and the
  icon without it.
\<close>

theorem C4_draw_order:
  assumes "load_image env poster = Some posterImage"
    and "load_image env icon = Some symbolImage"
    and "context_available env"
  shows "paint_steps (dl_ops (run_download env poster icon nm dst fnt)) =
           [DrawStep (DrawnImage posterImage), ShadowOn, DrawStep (DrawnText nm),
            DrawStep (DrawnText (districtText dst)), ShadowOff,
            DrawStep (DrawnImage symbolImage)] \<and>
         paint initial_shadow (dl_ops (run_download env poster icon nm dst fnt)) =
           [(DrawnImage posterImage, False), (DrawnText nm, True),
            (DrawnText (districtText dst), True), (DrawnImage symbolImage, False)] \<and>
         hd (dl_ops (run_download env poster icon nm dst fnt)) =
           DrawImage posterImage 0 0
             (of_nat (canvasWidth
                (compute_layout (img_width posterImage) (img_height posterImage))))
             (of_nat (canvasHeight
                (compute_layout (img_width posterImage) (img_height posterImage))))"
proof -
  have ops: "dl_ops (run_download env poster icon nm dst fnt) =
               draw_ops posterImage symbolImage nm dst fnt"
    using assms by (rule run_download_success)
  have first: "hd (draw_ops posterImage symbolImage nm dst fnt) =
           DrawImage posterImage 0 0
             (of_nat (canvasWidth
                (compute_layout (img_width posterImage) (img_height posterImage))))
             (of_nat (canvasHeight
                (compute_layout (img_width posterImage) (img_height posterImage))))"
    by (simp add: draw_ops_def Let_def)
  show ?thesis
    unfolding ops using paint_steps_draw_ops paint_draw_ops first by simp
qed

theorem C4_draw_order_witness:
  "load_image (example_dl_env True) ''poster-1'' = Some example_poster \<and>
   load_image (example_dl_env True) ''icon-1'' = Some example_icon \<and>
   context_available (example_dl_env True) \<and>
   paint initial_shadow
     (dl_ops (run_download (example_dl_env True) ''poster-1'' ''icon-1''
                ''Test Name'' ''Example'' ''Cairo'')) =
     [(DrawnImage example_poster, False), (DrawnText ''Test Name'', True),
      (DrawnText (districtText ''Example''), True), (DrawnImage example_icon, False)]"
proof -
  have p: "load_image (example_dl_env True) ''poster-1'' = Some example_poster"
    by (simp add: example_dl_env_def)
  have i: "load_image (example_dl_env True) ''icon-1'' = Some example_icon"
    by (simp add: example_dl_env_def)
  have c: "context_available (example_dl_env True)"
    by (simp add: example_dl_env_def)
  from C4_draw_order [OF p i c, of "''Test Name''" "''Example''" "''Cairo''"] p i c
  show ?thesis by simp
qed

section \<open>Geometry\<close>

text \<open>The constants of the layout, evaluated.\<close>

lemma literal_0_82_value: "literal_0_82 = 7385903388887613 / 9007199254740992"
  by code_simp

lemma name_font_value: "fdiv 1500 14 = 3769754152374857 / 35184372088832"
  by code_simp

lemma district_font_value: "fdiv 1500 35 = 6031606643799771 / 140737488355328"
  by code_simp

lemma symbol_size_value: "fdiv 1500 9 = 5864062014805333 / 35184372088832"
  by code_simp

lemma text_x_value: "fdiv 1500 2 = 750"
  by code_simp

lemma symbol_x_value:
  "fsub 750 (fdiv (5864062014805333 / 35184372088832) 2) = 5864062014805333 / 8796093022208"
  by code_simp

lemma canvas_width_value: "canvas_dimension 300 1500 = 1500"
  by (simp add: canvas_dimension_def to_unsigned_long_def)

lemma product_1000: "fmul 1000 (fdiv 1500 1000) = 1500"
  by code_simp

lemma height_1000: "canvas_dimension 150 (fmul 1000 (fdiv 1500 1000)) = 1500"
  by (simp add: product_1000 canvas_dimension_def to_unsigned_long_def)

lemma name_y_1500: "fmul 1500 (7385903388887613 / 9007199254740992) = 1230"
  by code_simp

lemma district_y_1500:
  "fadd 1230 (fdiv (3769754152374857 / 35184372088832) 2) = 5645206843181349 / 4398046511104"
  by code_simp

lemma symbol_y_1500:
  "fadd (5645206843181349 / 4398046511104) (6031606643799771 / 140737488355328)
     = 1458423637700023 / 1099511627776"
  by code_simp

lemma product_1024: "fmul 1000 (fdiv 1500 1024) = 46875 / 32"
  by code_simp

lemma floor_product_1024: "\<lfloor>46875 / 32 :: rat\<rfloor> = 1464"
  by code_simp

lemma height_1024: "canvas_dimension 150 (46875 / 32) = 1464"
  by (simp add: canvas_dimension_def to_unsigned_long_def floor_product_1024)

lemma layout_unfold:
  "compute_layout W H =
     \<lparr> canvasWidth = 1500,
       canvasHeight =
         (if W = 0 then 0 else canvas_dimension 150 (fmul (of_nat H) (fdiv 1500 (of_nat W)))),
       textX = 750,
       nameFontSize = 3769754152374857 / 35184372088832,
       nameY = fmul (of_nat (if W = 0 then 0
                 else canvas_dimension 150 (fmul (of_nat H) (fdiv 1500 (of_nat W)))))
                 (7385903388887613 / 9007199254740992),
       districtFontSize = 6031606643799771 / 140737488355328,
       districtY = fadd (fmul (of_nat (if W = 0 then 0
                 else canvas_dimension 150 (fmul (of_nat H) (fdiv 1500 (of_nat W)))))
                 (7385903388887613 / 9007199254740992))
                 (fdiv (3769754152374857 / 35184372088832) 2),
       symbolSize = 5864062014805333 / 35184372088832,
       symbolX = 5864062014805333 / 8796093022208,
       symbolY = fadd (fadd (fmul (of_nat (if W = 0 then 0
                 else canvas_dimension 150 (fmul (of_nat H) (fdiv 1500 (of_nat W)))))
                 (7385903388887613 / 9007199254740992))
                 (fdiv (3769754152374857 / 35184372088832) 2))
                 (6031606643799771 / 140737488355328) \<rparr>"
  by (simp add: compute_layout_def Let_def canvas_width_value literal_0_82_value
      name_font_value district_font_value symbol_size_value text_x_value symbol_x_value)

lemma layout_1000:
  "compute_layout 1000 1000 =
     \<lparr> canvasWidth = 1500, canvasHeight = 1500, textX = 750,
       nameFontSize = 3769754152374857 / 35184372088832, nameY = 1230,
       districtFontSize = 6031606643799771 / 140737488355328,
       districtY = 5645206843181349 / 4398046511104,
       symbolSize = 5864062014805333 / 35184372088832,
       symbolX = 5864062014805333 / 8796093022208,
       symbolY = 1458423637700023 / 1099511627776 \<rparr>"
  by (simp add: layout_unfold height_1000 name_y_1500 district_y_1500 symbol_y_1500)

lemma layout_1024_height: "canvasHeight (compute_layout 1024 1000) = 1464"
  by (simp add: layout_unfold product_1024 height_1024)

lemma round_half_even_nonneg: "0 \<le> q \<Longrightarrow> 0 \<le> round_half_even q"
  by (simp add: round_half_even_def Let_def)

lemma fl_nonneg: "0 \<le> x \<Longrightarrow> 0 \<le> fl x"
proof (cases "x = 0")
  case True
  then show ?thesis by (simp add: fl_def)
next
  case False
  assume "0 \<le> x"
  with False have pos: "0 < x" by simp
  have u: "0 < spacing x" by (simp add: spacing_def pow2_pos)
  with pos have "0 \<le> \<bar>x\<bar> / spacing x" by simp
  then have "0 \<le> round_half_even (\<bar>x\<bar> / spacing x)"
    by (rule round_half_even_nonneg)
  with u pos False show ?thesis
    by (simp add: fl_def Let_def)
qed

lemma product_nonneg: "0 \<le> fmul (of_nat H) (fdiv 1500 (of_nat W))"
  unfolding fmul_def fdiv_def
  by (intro fl_nonneg mult_nonneg_nonneg) simp_all

text \<open>What the canvas keeps of a non-negative number, spelled out.\<close>

lemma canvas_dimension_nonneg:
  assumes "0 \<le> x"
  shows "canvas_dimension dflt x =
           (if 2147483647 < \<lfloor>x\<rfloor> mod 2 ^ 32 then dflt else nat (\<lfloor>x\<rfloor> mod 2 ^ 32))"
proof -
  have "to_unsigned_long x = nat (\<lfloor>x\<rfloor> mod 2 ^ 32)"
    using assms by (simp add: to_unsigned_long_def)
  moreover have "(2147483647 < nat (\<lfloor>x\<rfloor> mod 2 ^ 32)) = (2147483647 < \<lfloor>x\<rfloor> mod 2 ^ 32)"
    by linarith
  ultimately show ?thesis
    by (simp add: canvas_dimension_def Let_def)
qed

lemma canvas_dimension_floor:
  assumes "0 \<le> x" and "x < 2 ^ 31"
  shows "of_nat (canvas_dimension dflt x) \<le> x \<and> x < of_nat (canvas_dimension dflt x) + 1"
proof -
  have lo: "0 \<le> \<lfloor>x\<rfloor>" using assms(1) by simp
  have hi: "\<lfloor>x\<rfloor> < 2 ^ 31"
    using assms(2) by (simp add: floor_less_iff)
  from lo hi have m: "\<lfloor>x\<rfloor> mod 2 ^ 32 = \<lfloor>x\<rfloor>" by simp
  from hi have "\<not> 2147483647 < \<lfloor>x\<rfloor>" by simp
  with m have "canvas_dimension dflt x = nat \<lfloor>x\<rfloor>"
    by (simp add: canvas_dimension_nonneg [OF assms(1)])
  with lo have "(of_nat (canvas_dimension dflt x) :: rat) = of_int \<lfloor>x\<rfloor>" by simp
  then show ?thesis by (simp add: floor_le_iff) linarith
qed

lemma canvas_dimension_default:
  assumes "2 ^ 31 \<le> x" and "x < 2 ^ 32"
  shows "canvas_dimension dflt x = dflt"
proof -
  have x0: "0 \<le> x" using assms(1) by (rule order_trans [rotated]) simp
  have lo: "2 ^ 31 \<le> \<lfloor>x\<rfloor>" using assms(1) by (simp add: le_floor_iff)
  have hi: "\<lfloor>x\<rfloor> < 2 ^ 32"
    using assms(2) by (simp add: floor_less_iff)
  from lo hi have m: "\<lfloor>x\<rfloor> mod 2 ^ 32 = \<lfloor>x\<rfloor>" by simp
  from lo have "2147483647 < \<lfloor>x\<rfloor>" by simp
  with m show ?thesis
    by (simp add: canvas_dimension_nonneg [OF x0])
qed

lemma product_tall_a: "fdiv 1500 1 = 1500"
  by code_simp

lemma nbits_tall: "nbits 2147484000 = 32"
  by (simp add: nbits.simps)

lemma fl_tall: "fl 2147484000 = 2147484000"
  by (simp add: fl_def spacing_def ilog2_def nbits_tall pow2_def round_half_even_def Let_def)

lemma product_tall: "fmul 1431656 (fdiv 1500 1) = 2147484000"
  by (simp add: product_tall_a fmul_def fl_tall)

text \<open>
  C3, as the code has it. For a poster of width \<open>W > 0\<close> and height \<open>H\<close> that is
  composited: the canvas is 1500 wide; its height is \<open>H * (1500 / W)\<close> truncated to
  an integer and reduced modulo \<open>2 ^ 32\<close>, or 150 when that exceeds \<open>2147483647\<close>,
  since this is what the canvas keeps and the later formulas read back; so below
  \<open>2 ^ 31\<close> it is the integer part of the product. Name font size \<open>canvasWidth / 14\<close>
  at baseline \<open>canvasHeight * 0.82\<close>; caption font size \<open>canvasWidth / 35\<close> at baseline
  \<open>nameY + nameFontSize / 2\<close>; both texts centred at \<open>x = canvasWidth / 2\<close>; icon
  size \<open>canvasWidth / 9\<close> at \<open>x = canvasWidth / 2 - size / 2\<close>,
  \<open>y = districtY + districtFontSize\<close>. These are the numbers in the operations the
  routine issues and the size of the file. Every operation is the binary64 one.
\<close>

theorem C3_layout_formulas:
  assumes "load_image env poster = Some posterImage"
    and "load_image env icon = Some symbolImage"
    and "context_available env"
    and "0 < img_width posterImage"
  shows "let W = img_width posterImage;
             H = img_height posterImage;
             product = fmul (of_nat H) (fdiv 1500 (of_nat W));
             ch = (if 2147483647 < \<lfloor>product\<rfloor> mod 2 ^ 32 then 150
                   else nat (\<lfloor>product\<rfloor> mod 2 ^ 32));
             nfs = fdiv 1500 14;
             ny = fmul (of_nat ch) literal_0_82;
             dfs = fdiv 1500 35;
             dy = fadd ny (fdiv nfs 2);
             ss = fdiv 1500 9;
             sx = fsub (fdiv 1500 2) (fdiv ss 2);
             sy = fadd dy dfs
         in compute_layout W H =
              \<lparr> canvasWidth = 1500, canvasHeight = ch, textX = fdiv 1500 2,
                nameFontSize = nfs, nameY = ny, districtFontSize = dfs, districtY = dy,
                symbolSize = ss, symbolX = sx, symbolY = sy \<rparr> \<and>
            dl_ops (run_download env poster icon nm dst fnt) =
              [ DrawImage posterImage 0 0 1500 (of_nat ch),
                Set_shadowColor ''rgba(0, 0, 0, 0.4)'',
                Set_shadowBlur 10,
                Set_shadowOffsetX 2,
                Set_shadowOffsetY 2,
                Set_font (Font 900 nfs fnt),
                Set_fillStyle ''#FFFFFF'',
                Set_textAlign ''center'',
                Set_direction ''rtl'',
                FillText nm (fdiv 1500 2) ny,
                Set_font (Font 700 dfs fnt),
                Set_fillStyle ''#FFFFFF'',
                FillText (districtText dst) (fdiv 1500 2) dy,
                Set_shadowColor ''transparent'',
                DrawImage symbolImage sx sy ss ss ] \<and>
            map_option (\<lambda>a. (art_width a, art_height a))
              (dl_file (run_download env poster icon nm dst fnt)) = Some (1500, ch) \<and>
            (product < 2 ^ 31 \<longrightarrow> of_nat ch \<le> product \<and> product < of_nat ch + 1) \<and>
            (2 ^ 31 \<le> product \<and> product < 2 ^ 32 \<longrightarrow> ch = 150)"
proof -
  define product where
    "product = fmul (of_nat (img_height posterImage)) (fdiv 1500 (of_nat (img_width posterImage)))"
  define ch where "ch = canvas_dimension 150 product"
  have nonneg: "0 \<le> product"
    unfolding product_def by (rule product_nonneg)
  have ch: "(if 2147483647 < \<lfloor>product\<rfloor> mod 2 ^ 32 then 150
             else nat (\<lfloor>product\<rfloor> mod 2 ^ 32)) = ch"
    unfolding ch_def by (rule canvas_dimension_nonneg [OF nonneg, symmetric])
  have lay: "compute_layout (img_width posterImage) (img_height posterImage) =
              \<lparr> canvasWidth = 1500, canvasHeight = ch, textX = fdiv 1500 2,
                nameFontSize = fdiv 1500 14, nameY = fmul (of_nat ch) literal_0_82,
                districtFontSize = fdiv 1500 35,
                districtY = fadd (fmul (of_nat ch) literal_0_82) (fdiv (fdiv 1500 14) 2),
                symbolSize = fdiv 1500 9,
                symbolX = fsub (fdiv 1500 2) (fdiv (fdiv 1500 9) 2),
                symbolY = fadd (fadd (fmul (of_nat ch) literal_0_82) (fdiv (fdiv 1500 14) 2))
                            (fdiv 1500 35) \<rparr>"
    using assms(4)
    by (simp add: compute_layout_def Let_def canvas_width_value ch_def product_def)
  have ops: "dl_ops (run_download env poster icon nm dst fnt) =
               draw_ops posterImage symbolImage nm dst fnt"
    using assms(1-3) by (rule run_download_success)
  have art: "dl_file (run_download env poster icon nm dst fnt) =
           Some \<lparr> art_filename = ''my-election-poster.png'',
                  art_width = canvasWidth
                    (compute_layout (img_width posterImage) (img_height posterImage)),
                  art_height = canvasHeight
                    (compute_layout (img_width posterImage) (img_height posterImage)),
                  art_ops = draw_ops posterImage symbolImage nm dst fnt \<rparr>"
    using assms(1-3) by (rule run_download_success)
  have low: "of_nat ch \<le> product \<and> product < of_nat ch + 1" if "product < 2 ^ 31"
    unfolding ch_def using nonneg that by (rule canvas_dimension_floor)
  have high: "ch = 150" if "2 ^ 31 \<le> product \<and> product < 2 ^ 32"
    unfolding ch_def using that by (simp add: canvas_dimension_default)
  show ?thesis
    unfolding Let_def product_def [symmetric] ch
    using low high
    by (simp add: lay ops art draw_ops_def Let_def)
qed

theorem C3_layout_formulas_witness:
  "load_image (dl_env_of [(''poster-2'', wide_poster), (''icon-1'', example_icon)] True)
     ''poster-2'' = Some wide_poster \<and>
   load_image (dl_env_of [(''poster-2'', wide_poster), (''icon-1'', example_icon)] True)
     ''icon-1'' = Some example_icon \<and>
   context_available (dl_env_of [(''poster-2'', wide_poster), (''icon-1'', example_icon)] True) \<and>
   0 < img_width wide_poster \<and>
   fmul (of_nat (img_height wide_poster)) (fdiv 1500 (of_nat (img_width wide_poster))) < 2 ^ 31 \<and>
   canvasHeight (compute_layout 1024 1000) = 1464 \<and>
   dl_ops (run_download
             (dl_env_of [(''poster-2'', wide_poster), (''icon-1'', example_icon)] True)
             ''poster-2'' ''icon-1'' ''Test Name'' ''Example'' ''Cairo'') ! 0
     = DrawImage wide_poster 0 0 1500 1464 \<and>
   map_option (\<lambda>a. (art_width a, art_height a))
     (dl_file (run_download
                 (dl_env_of [(''poster-2'', wide_poster), (''icon-1'', example_icon)] True)
                 ''poster-2'' ''icon-1'' ''Test Name'' ''Example'' ''Cairo''))
     = Some (1500, 1464) \<and>
   load_image (dl_env_of [(''poster-3'', tall_poster), (''icon-1'', example_icon)] True)
     ''poster-3'' = Some tall_poster \<and>
   0 < img_width tall_poster \<and>
   2 ^ 31 \<le> fmul (of_nat (img_height tall_poster)) (fdiv 1500 (of_nat (img_width tall_poster))) \<and>
   fmul (of_nat (img_height tall_poster)) (fdiv 1500 (of_nat (img_width tall_poster))) < 2 ^ 32 \<and>
   canvasHeight (compute_layout 1 1431656) = 150"
proof -
  let ?wide = "dl_env_of [(''poster-2'', wide_poster), (''icon-1'', example_icon)] True"
  let ?tall = "dl_env_of [(''poster-3'', tall_poster), (''icon-1'', example_icon)] True"
  have p: "load_image ?wide ''poster-2'' = Some wide_poster"
    and i: "load_image ?wide ''icon-1'' = Some example_icon"
    and c: "context_available ?wide"
    and w: "0 < img_width wide_poster"
    by (simp_all add: dl_env_of_def wide_poster_def)
  have b: "fmul (of_nat (img_height wide_poster)) (fdiv 1500 (of_nat (img_width wide_poster)))
             < 2 ^ 31"
    by (simp add: wide_poster_def product_1024)
  note wide = C3_layout_formulas [OF p i c w, of "''Test Name''" "''Example''" "''Cairo''",
      unfolded Let_def]
  from wide have h: "canvasHeight (compute_layout 1024 1000) = 1464"
    by (simp add: wide_poster_def product_1024 floor_product_1024)
  from wide have d: "dl_ops (run_download ?wide ''poster-2'' ''icon-1''
                       ''Test Name'' ''Example'' ''Cairo'') ! 0
                     = DrawImage wide_poster 0 0 1500 1464"
    by (simp add: wide_poster_def product_1024 floor_product_1024)
  from wide have a: "map_option (\<lambda>a. (art_width a, art_height a))
       (dl_file (run_download ?wide ''poster-2'' ''icon-1'' ''Test Name'' ''Example'' ''Cairo''))
     = Some (1500, 1464)"
    by (simp add: wide_poster_def product_1024 floor_product_1024)
  have p': "load_image ?tall ''poster-3'' = Some tall_poster"
    and i': "load_image ?tall ''icon-1'' = Some example_icon"
    and c': "context_available ?tall"
    and w': "0 < img_width tall_poster"
    by (simp_all add: dl_env_of_def tall_poster_def)
  have lo: "2 ^ 31 \<le> fmul (of_nat (img_height tall_poster))
                        (fdiv 1500 (of_nat (img_width tall_poster)))"
    and hi: "fmul (of_nat (img_height tall_poster))
               (fdiv 1500 (of_nat (img_width tall_poster))) < 2 ^ 32"
    by (simp_all add: tall_poster_def product_tall)
  note tall = C3_layout_formulas [OF p' i' c' w', of "''Test Name''" "''Example''" "''Cairo''",
      unfolded Let_def]
  from tall have t: "canvasHeight (compute_layout 1 1431656) = 150"
    by (simp add: tall_poster_def product_tall)
  show ?thesis
    using p i c w b h d a p' w' lo hi t by blast
qed

text \<open>
  C3 as stated asks for \<open>canvasHeight = H * (1500 / W)\<close>. For a poster of 1024 by 1000
  the product is 1464.84375, exactly representable, and the canvas height is 1464.
\<close>

theorem C3_height_not_exact_counterexample:
  "rat_of_nat (canvasHeight (compute_layout 1024 1000)) \<noteq> fmul 1000 (fdiv 1500 1024) \<and>
   rat_of_nat (canvasHeight (compute_layout 1024 1000)) \<noteq> 1000 * (1500 / 1024)"
  by (simp add: layout_1024_height product_1024)

lemma example_download_ops:
  "dl_ops (run_download (example_dl_env True) ''poster-1'' ''icon-1''
             ''Test Name'' ''Example'' ''Cairo'') =
     [ DrawImage example_poster 0 0 1500 1500,
       Set_shadowColor ''rgba(0, 0, 0, 0.4)'',
       Set_shadowBlur 10,
       Set_shadowOffsetX 2,
       Set_shadowOffsetY 2,
       Set_font (Font 900 (3769754152374857 / 35184372088832) ''Cairo''),
       Set_fillStyle ''#FFFFFF'',
       Set_textAlign ''center'',
       Set_direction ''rtl'',
       FillText ''Test Name'' 750 1230,
       Set_font (Font 700 (6031606643799771 / 140737488355328) ''Cairo''),
       Set_fillStyle ''#FFFFFF'',
       FillText (districtText ''Example'') 750 (5645206843181349 / 4398046511104),
       Set_shadowColor ''transparent'',
       DrawImage example_icon (5864062014805333 / 8796093022208)
         (1458423637700023 / 1099511627776)
         (5864062014805333 / 35184372088832) (5864062014805333 / 35184372088832) ]"
  by (simp add: run_download_def example_dl_env_def Let_def draw_ops_def example_poster_def
      layout_1000)

lemma example_download_file:
  "map_option (\<lambda>a. (art_width a, art_height a))
     (dl_file (run_download (example_dl_env True) ''poster-1'' ''icon-1''
                 ''Test Name'' ''Example'' ''Cairo'')) = Some (1500, 1500)"
  by (simp add: run_download_def example_dl_env_def Let_def example_poster_def layout_1000)

text \<open>
  C2 as stated puts the left edge of the icon near \<open>x = 583\<close> for the 1000 by 1000
  poster. The last operation of the routine draws the icon at \<open>x = 666.67\<close>, which is
  \<open>750 - 166.67 / 2\<close>.
\<close>

theorem C2_icon_x_counterexample:
  "last (dl_ops (run_download (example_dl_env True) ''poster-1'' ''icon-1''
                   ''Test Name'' ''Example'' ''Cairo'')) =
     DrawImage example_icon (5864062014805333 / 8796093022208)
       (1458423637700023 / 1099511627776)
       (5864062014805333 / 35184372088832) (5864062014805333 / 35184372088832) \<and>
   \<not> \<bar>5864062014805333 / 8796093022208 - 583\<bar> \<le> (83 :: rat)"
  by (simp add: example_download_ops)

text \<open>
  C2, as the code has it. For the 1000 by 1000 poster with name \<open>Test Name\<close> and
  district \<open>Example\<close> the file is 1500 by 1500, the name is drawn at \<open>(750, 1230)\<close>,
  the caption at baseline \<open>1283.57\<close> (within 0.01 of \<open>1230 + 53.57\<close>), and the icon with
  its top-left corner at \<open>x = 666.67\<close>, \<open>y = 1326.43\<close> (within 0.1 of
  \<open>1283.6 + 42.9\<close>).
\<close>

theorem C2_example_geometry:
  "map_option (\<lambda>a. (art_width a, art_height a))
     (dl_file (run_download (example_dl_env True) ''poster-1'' ''icon-1''
                 ''Test Name'' ''Example'' ''Cairo'')) = Some (1500, 1500) \<and>
   dl_ops (run_download (example_dl_env True) ''poster-1'' ''icon-1''
             ''Test Name'' ''Example'' ''Cairo'') ! 9 = FillText ''Test Name'' 750 1230 \<and>
   dl_ops (run_download (example_dl_env True) ''poster-1'' ''icon-1''
             ''Test Name'' ''Example'' ''Cairo'') ! 12 =
     FillText (districtText ''Example'') 750 (5645206843181349 / 4398046511104) \<and>
   \<bar>5645206843181349 / 4398046511104 - (1230 + 5357 / 100)\<bar> < (1 / 100 :: rat) \<and>
   dl_ops (run_download (example_dl_env True) ''poster-1'' ''icon-1''
             ''Test Name'' ''Example'' ''Cairo'') ! 14 =
     DrawImage example_icon (5864062014805333 / 8796093022208)
       (1458423637700023 / 1099511627776)
       (5864062014805333 / 35184372088832) (5864062014805333 / 35184372088832) \<and>
   \<bar>5864062014805333 / 8796093022208 - 66667 / 100\<bar> < (1 / 100 :: rat) \<and>
   \<bar>1458423637700023 / 1099511627776 - (12836 / 10 + 429 / 10)\<bar> < (1 / 10 :: rat)"
  by (simp add: example_download_ops example_download_file)

end
